theory Spec2Isabelle
  imports Main "HOL-Library.Word"
begin

unbundle bit_operations_syntax

section \<open>Machine integers and bytes\<close>

type_synonym u8 = "8 word"
type_synonym u16 = "16 word"
type_synonym u32 = "32 word"
type_synonym u64 = "64 word"

text \<open>A Go string is a byte sequence; \<open>s[i]\<close> reads one byte.\<close>

definition byteOf :: "char \<Rightarrow> u8" where
  "byteOf c = of_char c"

section \<open>Plural rules (pluralRule, getOp, cmp)\<close>

text \<open>
  \<^verbatim>\<open>type pluralRule struct { op cmpOp; i0 uint8 }\<close>: the low three bits of \<open>op\<close> are the
  operator, the top five bits the between-delta.
\<close>

record pluralRule =
  op :: u8
  i0 :: u8

definition cmpAll :: u8 where "cmpAll = 0"
definition cmpEquals :: u8 where "cmpEquals = 1"
definition cmpLess :: u8 where "cmpLess = 2"
definition cmpLessEqual :: u8 where "cmpLessEqual = 3"
definition cmpGreater :: u8 where "cmpGreater = 4"
definition cmpGreaterEqual :: u8 where "cmpGreaterEqual = 5"
definition cmpBetween :: u8 where "cmpBetween = 6"
definition cmpBetweenExtraBit :: u8 where "cmpBetweenExtraBit = 7"

definition getOp :: "pluralRule \<Rightarrow> u8" where
  "getOp pr = op pr AND 7"

text \<open>The between-delta stored in the top five bits: \<^verbatim>\<open>uint8(pr.op)>>3\<close>.\<close>

definition getDelta :: "pluralRule \<Rightarrow> u8" where
  "getDelta pr = drop_bit 3 (op pr)"

text \<open>\<^verbatim>\<open>func (pr pluralRule) cmp(pluralCount uint8) bool\<close>; all arithmetic is \<open>uint8\<close>.\<close>

definition cmp :: "pluralRule \<Rightarrow> u8 \<Rightarrow> bool" where
  "cmp pr pluralCount =
     (if getOp pr = cmpAll then True
      else if getOp pr = cmpEquals then pluralCount = i0 pr
      else if getOp pr = cmpLess then pluralCount < i0 pr
      else if getOp pr = cmpLessEqual then pluralCount \<le> i0 pr
      else if getOp pr = cmpGreater then pluralCount > i0 pr
      else if getOp pr = cmpGreaterEqual then pluralCount \<ge> i0 pr
      else if getOp pr = cmpBetween then
        i0 pr \<le> pluralCount \<and> (i0 pr + getDelta pr) \<ge> pluralCount
      else if getOp pr = cmpBetweenExtraBit then
        i0 pr \<le> pluralCount \<and> (i0 pr + getDelta pr) + 32 \<ge> pluralCount
      else False)"

section \<open>Parsing a textual plural rule (createPluralRule)\<close>

text \<open>
  The errors \<^verbatim>\<open>createPluralRule\<close> returns, in source order, and the run-time panic of an
  index expression \<^verbatim>\<open>s[index]\<close> that is out of range.
\<close>

datatype ruleError =
    IndexOutOfRange
  | CaretFollowed
  | BadLeadingOperator
  | BadFirstNumber
  | TrailingAfterNumber
  | MissingDash
  | BadSecondNumber
  | TrailingAfterSecondNumber

text \<open>\<^verbatim>\<open>for index < strLen && s[index] == ' ' { index++ }\<close>\<close>

function consumeWhitespace :: "string \<Rightarrow> nat \<Rightarrow> nat" where
  "consumeWhitespace s index =
     (if index < length s \<and> s ! index = CHR '' '' then consumeWhitespace s (index + 1)
      else index)"
  by pat_completeness auto
termination
  by (relation "measure (\<lambda>(s, index). length s - index)") auto

declare consumeWhitespace.simps [simp del]

definition isDigit :: "char \<Rightarrow> bool" where
  "isDigit c = (byteOf c \<ge> 0x30 \<and> byteOf c \<le> 0x39)"

text \<open>
  The closure \<^verbatim>\<open>getNum\<close>: at most \<open>maxUint8Digits = 3\<close> decimal digits are accumulated in a
  \<open>uint16\<close>; the result is the number, the count of digits and the new index.
\<close>

function getNumLoop :: "string \<Rightarrow> nat \<Rightarrow> u16 \<Rightarrow> nat \<Rightarrow> u16 \<times> nat \<times> nat" where
  "getNumLoop s index numFound digitNumsConsumed =
     (if index < length s \<and> isDigit (s ! index) \<and> digitNumsConsumed < 3
      then getNumLoop s (index + 1)
             (numFound * 10 + ucast (byteOf (s ! index) - 0x30)) (digitNumsConsumed + 1)
      else (numFound, digitNumsConsumed, index))"
  by pat_completeness auto
termination
  by (relation "measure (\<lambda>(s, index, n, d). length s - index)") auto

declare getNumLoop.simps [simp del]

definition getNum :: "string \<Rightarrow> nat \<Rightarrow> u16 \<times> nat \<times> nat" where
  "getNum s index = getNumLoop s index 0 0"

text \<open>The dual operator \<open>~\<close>, entered after the first number and the white space behind it.\<close>

definition createBetween :: "string \<Rightarrow> nat \<Rightarrow> u8 \<Rightarrow> u16 \<Rightarrow> ruleError + pluralRule" where
  "createBetween s index myOp numFound =
     (if index \<ge> length s \<or> s ! index \<noteq> CHR ''-'' then Inl MissingDash
      else
        case getNum s (consumeWhitespace s (index + 1)) of
          (numFound2, digitNumsConsumed2, index2) \<Rightarrow>
            let numFoundDiff = int (unat numFound2) - int (unat numFound) in
            if digitNumsConsumed2 = 0 \<or> numFoundDiff < 0 \<or> numFoundDiff > 63
            then Inl BadSecondNumber
            else if consumeWhitespace s index2 < length s then Inl TrailingAfterSecondNumber
            else
              let isAboveHalf = (if numFoundDiff \<ge> 32 then 1 else 0 :: u8) in
              Inr \<lparr>op = myOp + isAboveHalf
                          + push_bit 3 (word_of_int numFoundDiff - 32 * isAboveHalf),
                   i0 = ucast numFound\<rparr>)"

text \<open>The operand part, entered after the leading operator character.\<close>

definition createOperand :: "string \<Rightarrow> u8 \<Rightarrow> ruleError + pluralRule" where
  "createOperand s myOp0 =
     (let index0 = consumeWhitespace s 1;
          extend = ((myOp0 = cmpLess \<or> myOp0 = cmpGreater)
                    \<and> index0 < length s \<and> s ! index0 = CHR ''='');
          myOp = (if extend then (if myOp0 = cmpLess then cmpLessEqual else cmpGreaterEqual)
                  else myOp0);
          index1 = (if extend then consumeWhitespace s (index0 + 1) else index0)
      in case getNum s index1 of
           (numFound, digitNumsConsumed, index2) \<Rightarrow>
             if digitNumsConsumed = 0 \<or> numFound > 255 then Inl BadFirstNumber
             else
               let index3 = consumeWhitespace s index2 in
               if myOp \<noteq> cmpBetween then
                 (if index3 < length s then Inl TrailingAfterNumber
                  else Inr \<lparr>op = myOp, i0 = ucast numFound\<rparr>)
               else createBetween s index3 myOp numFound)"

definition createPluralRule :: "string \<Rightarrow> ruleError + pluralRule" where
  "createPluralRule s =
     (if length s = 0 then Inl IndexOutOfRange
      else if s ! 0 = CHR ''^'' then
        (if consumeWhitespace s 1 \<noteq> length s then Inl CaretFollowed
         else Inr \<lparr>op = cmpAll, i0 = 0\<rparr>)
      else if s ! 0 = CHR ''='' then createOperand s cmpEquals
      else if s ! 0 = CHR ''<'' then createOperand s cmpLess
      else if s ! 0 = CHR ''>'' then createOperand s cmpGreater
      else if s ! 0 = CHR ''~'' then createOperand s cmpBetween
      else Inl BadLeadingOperator)"


section \<open>Evaluation of packed rules\<close>

text \<open>
  The evaluation table of the specification, read in exact arithmetic on natural numbers:
  \<open>All\<close> is true; \<open>Eq\<close>, \<open>Lt\<close>, \<open>LtEq\<close>, \<open>Gt\<close>, \<open>GtEq\<close> compare the count with
  \<open>i0\<close>; \<open>Between\<close> is \<open>i0 \<le> c \<and> c \<le> i0 + delta\<close>; \<open>BetweenHigh\<close> is
  \<open>i0 \<le> c \<and> c \<le> i0 + delta + 32\<close>.
\<close>

definition cmp_exact :: "pluralRule \<Rightarrow> nat \<Rightarrow> bool" where
  "cmp_exact pr c =
     (let i = unat (i0 pr); d = unat (getDelta pr); k = unat (getOp pr) in
      if k = 0 then True
      else if k = 1 then c = i
      else if k = 2 then c < i
      else if k = 3 then c \<le> i
      else if k = 4 then c > i
      else if k = 5 then c \<ge> i
      else if k = 6 then i \<le> c \<and> c \<le> i + d
      else i \<le> c \<and> c \<le> i + d + 32)"

text \<open>The upper limit of a between rule, as a natural number (no wrap-around).\<close>

definition upperLimit :: "pluralRule \<Rightarrow> nat" where
  "upperLimit pr =
     unat (i0 pr) + unat (getDelta pr) + (if getOp pr = cmpBetweenExtraBit then 32 else 0)"

section \<open>Primary data structures\<close>

text \<open>
  Go strings and byte slices are both byte sequences. Names and texts are kept as
  \<^typ>\<open>string\<close>, raw data as lists of \<^typ>\<open>u8\<close>; \<^verbatim>\<open>s2b\<close> and \<^verbatim>\<open>b2s\<close> convert.
\<close>

definition s2b :: "string \<Rightarrow> u8 list" where
  "s2b s = map byteOf s"

definition b2s :: "u8 list \<Rightarrow> string" where
  "b2s b = map (\<lambda>w. char_of (unat w)) b"

record translationRule =
  startPos :: u32
  rule :: pluralRule

record translationRuleSlice =
  startIndex :: u32

datatype variableType =
    vtAnything | vtString | vtInteger | vtBinary | vtOctal | vtHexLower | vtHexUpper
  | vtScientific | vtFloating | vtBool | vtDateTime | vtCurrency | vtIntegerWithSymbols
  | vtFloatWithSymbols | vtStaticTranslation | vtVariableTranslation

record translationIDVar =
  varName :: string
  varType :: variableType

record translationIDNameAndVars =
  idName :: string
  idVars :: "translationIDVar list"

text \<open>
  A Go map is an association list with distinct keys, read with \<^const>\<open>map_of\<close>; its
  length is the number of keys.
\<close>

record namespace =
  nsName :: string
  nsIndex :: nat
  ids :: "(string \<times> u32) list"
  idsInOrder :: "translationIDNameAndVars list"

text \<open>The hash is a byte slice; \<^verbatim>\<open>nil\<close> is \<open>None\<close>.\<close>

record languageDict =
  namespaces :: "(string \<times> namespace) list"
  namespacesInOrder :: "string list"
  hash :: "u8 list option"
  hasVarsLoaded :: bool

text \<open>
  Languages and dictionaries are referred to by pointers. A pointer is an address; the
  store gives the object at an address. \<^verbatim>\<open>nil\<close> is \<open>None\<close>. The fields \<^verbatim>\<open>languageTag\<close>,
  \<^verbatim>\<open>messagePrinter\<close> and \<^verbatim>\<open>timeLocalizer\<close> belong to external libraries and are
  represented by the formatting capabilities below.
\<close>

text \<open>The field \<^verbatim>\<open>translations\<close> is named \<open>translationSlices\<close> here.\<close>

record Language =
  stringsData :: "u8 list"
  rules :: "translationRule list"
  translationSlices :: "translationRuleSlice list"
  dict :: nat
  fallback :: "nat option"
  name :: string
  fallbackName :: string
  missingPluralRule :: string
  languageIdentifier :: string

record store =
  langs :: "nat \<Rightarrow> Language"
  dicts :: "nat \<Rightarrow> languageDict"

text \<open>A call either returns its results or panics (an index or slice out of range).\<close>

datatype 'a outcome = Returns 'a | Panics

text \<open>\<^verbatim>\<open>ulen32(l.translations) - 1\<close>, in \<open>uint32\<close>.\<close>

definition NumTranslations :: "Language \<Rightarrow> u32" where
  "NumTranslations l = of_nat (length (translationSlices l)) - 1"

section \<open>Retrieval: finding the language and the rule (getReal, first half)\<close>

datatype varError =
    MissingVarNumSpecifier
  | MissingVariable nat
  | MissingTypeFlags
  | MissingWidth
  | MissingPrecision
  | TimeLocalizerFailed
  | MissingSpecifierLen
  | MissingSpecifier
  | NotATime
  | NotACurrencyAmount
  | MissingStaticIndex
  | StaticInvalidIndex
  | VariableInvalidIndex
  | VariableInvalidNamespace string string
  | VariableInvalidTranslationID string string
  | VariableInvalidType
  | UnknownVariableType
  | EmbeddedFailed string string getError
and getError =
    InvalidIndexLocation u32
  | TooManyEmbeddedLevels
  | FallbackNotSet
  | NoRulesFound
  | NoPluralRuleMatches
  | InvalidNamespace
  | InvalidTranslationID
  | InsertedVariable nat varError

definition maxEmbeddedCount :: nat where
  "maxEmbeddedCount = 100"

text \<open>
  The loop over the fallback chain,
  \<^verbatim>\<open>for curLang = l; curLang != prevLang && curLang != nil; curLang = curLang.fallback\<close>.
  It leaves with \<^verbatim>\<open>curLang == nil\<close>, with \<^verbatim>\<open>curLang == prevLang\<close>, with a non-empty slice
  of rules (\<^verbatim>\<open>break\<close>), or with a panic of \<^verbatim>\<open>curLang.translations[index]\<close>. On a chain
  that cycles through languages without rules it never leaves: the value is \<open>None\<close>.
\<close>

datatype walk =
    WalkNil
  | WalkSelf
  | WalkFound nat u32 u32
  | WalkPanic

partial_function (option) walkFallback ::
  "store \<Rightarrow> u32 \<Rightarrow> nat option \<Rightarrow> nat option \<Rightarrow> walk option" where
  "walkFallback st index curLang prevLang =
     (case curLang of
        None \<Rightarrow> Some WalkNil
      | Some c \<Rightarrow>
          if curLang = prevLang then Some WalkSelf
          else
            let ts = translationSlices (langs st c) in
            if unat index \<ge> length ts \<or> unat (index + 1) \<ge> length ts then Some WalkPanic
            else
              let sliceIndex = startIndex (ts ! unat index);
                  sliceLength = startIndex (ts ! unat (index + 1)) - sliceIndex
              in if sliceLength \<noteq> 0 then Some (WalkFound c sliceIndex sliceLength)
                 else walkFallback st index (fallback (langs st c)) curLang)"

declare walkFallback.simps [code]

text \<open>The first position of a list at which a predicate holds.\<close>

fun firstIndex :: "('a \<Rightarrow> bool) \<Rightarrow> 'a list \<Rightarrow> nat option" where
  "firstIndex P [] = None"
| "firstIndex P (x # xs) =
     (if P x then Some 0 else map_option Suc (firstIndex P xs))"

text \<open>
  Go's slice expression \<^verbatim>\<open>xs[lo:hi]\<close>; it panics unless \<open>lo \<le> hi \<le> cap\<close>. All slices
  here are made with their exact length, so the capacity is the length.
\<close>

definition slice :: "'a list \<Rightarrow> nat \<Rightarrow> nat \<Rightarrow> 'a list option" where
  "slice xs lo hi = (if lo \<le> hi \<and> hi \<le> length xs then Some (take (hi - lo) (drop lo xs)) else None)"

text \<open>
  The search for the matching rule. \<open>pluralCount\<close> is an \<open>int64\<close>; a negative value
  marks a non-plural call. The result is \<open>matchingRuleIndex\<close>, \<open>-1\<close> when nothing matches.
\<close>

definition isPluralFunc :: "u64 \<Rightarrow> bool" where
  "isPluralFunc pluralCount = (0 \<le> sint pluralCount)"

definition matchingRule :: "translationRule list \<Rightarrow> u32 \<Rightarrow> u64 \<Rightarrow> int" where
  "matchingRule rs sliceIndex pluralCount =
     (if \<not> isPluralFunc pluralCount then
        (case firstIndex (\<lambda>r. getOp (rule r) = cmpAll) rs of
           None \<Rightarrow> int (unat sliceIndex)
         | Some i \<Rightarrow> int (unat sliceIndex) + int i)
      else
        (case firstIndex (\<lambda>r. cmp (rule r) (ucast pluralCount)) rs of
           None \<Rightarrow> -1
         | Some i \<Rightarrow> int (unat sliceIndex) + int i))"

text \<open>
  What \<^verbatim>\<open>getReal\<close> does before it processes the translation: it returns early, or it
  has the bytes of the selected rule, or (\<open>None\<close>) it never leaves the fallback loop.
\<close>

datatype selection =
    Early "(string \<times> getError option) outcome"
  | Selected "u8 list"

definition selectTranslation ::
  "store \<Rightarrow> nat \<Rightarrow> u32 \<Rightarrow> u64 \<Rightarrow> nat \<Rightarrow> selection option" where
  "selectTranslation st l index pluralCount embeddedCount =
     (if index \<ge> NumTranslations (langs st l) then
        Some (Early (Returns ('''', Some (InvalidIndexLocation index))))
      else if embeddedCount > maxEmbeddedCount then
        Some (Early (Returns ('''', Some TooManyEmbeddedLevels)))
      else
        case walkFallback st index (Some l) None of
          None \<Rightarrow> None
        | Some WalkPanic \<Rightarrow> Some (Early Panics)
        | Some WalkNil \<Rightarrow> Some (Early (Returns ('''', Some FallbackNotSet)))
        | Some WalkSelf \<Rightarrow> Some (Early (Returns ('''', Some NoRulesFound)))
        | Some (WalkFound c sliceIndex sliceLength) \<Rightarrow>
            let curLang = langs st c in
            (case slice (rules curLang) (unat sliceIndex) (unat (sliceIndex + sliceLength)) of
               None \<Rightarrow> Some (Early Panics)
             | Some rs \<Rightarrow>
                 let m = matchingRule rs sliceIndex pluralCount in
                 if m = -1 then
                   Some (Early (Returns (missingPluralRule curLang, Some NoPluralRuleMatches)))
                 else if nat m + 1 \<ge> length (rules curLang) then Some (Early Panics)
                 else
                   (case slice (stringsData curLang)
                           (unat (startPos (rules curLang ! nat m)))
                           (unat (startPos (rules curLang ! (nat m + 1)))) of
                      None \<Rightarrow> Some (Early Panics)
                    | Some bs \<Rightarrow> Some (Selected bs))))"

section \<open>The dictionary's reverse lookup\<close>

text \<open>
  \<^verbatim>\<open>translationIDLookupNS\<close>: the namespace holding an index, found from the sizes of the
  namespaces in order. \<^verbatim>\<open>dict.namespaces[nsName]\<close> of a missing name is a nil pointer, and
  reading its field panics.
\<close>

fun lookupNSLoop ::
  "(string \<times> namespace) list \<Rightarrow> string list \<Rightarrow> nat \<Rightarrow> nat \<Rightarrow> (string \<times> nat \<times> bool) outcome" where
  "lookupNSLoop nss [] index namespaceStartIndex = Returns ('''', 0, False)"
| "lookupNSLoop nss (ns # rest) index namespaceStartIndex =
     (case map_of nss ns of
        None \<Rightarrow> Panics
      | Some n \<Rightarrow>
          let namespaceLen = length (ids n) in
          if index < namespaceStartIndex + namespaceLen
          then Returns (ns, namespaceStartIndex, True)
          else lookupNSLoop nss rest index (namespaceStartIndex + namespaceLen))"

definition translationIDLookupNS :: "languageDict \<Rightarrow> u32 \<Rightarrow> (string \<times> nat \<times> bool) outcome" where
  "translationIDLookupNS d index = lookupNSLoop (namespaces d) (namespacesInOrder d) (unat index) 0"

definition translationIDLookup :: "languageDict \<Rightarrow> u32 \<Rightarrow> (string \<times> string \<times> bool) outcome" where
  "translationIDLookup d index =
     (case translationIDLookupNS d index of
        Panics \<Rightarrow> Panics
      | Returns (ns, nsStartIndex, ok) \<Rightarrow>
          if \<not> ok then Returns ('''', '''', False)
          else
            case map_of (namespaces d) ns of
              None \<Rightarrow> Panics
            | Some n \<Rightarrow>
                if hasVarsLoaded d then
                  (if unat index - nsStartIndex < length (idsInOrder n)
                   then Returns (ns, idName (idsInOrder n ! (unat index - nsStartIndex)), True)
                   else Panics)
                else
                  (case List.find (\<lambda>(nm, matchIndex). matchIndex = index) (ids n) of
                     Some (nm, matchIndex) \<Rightarrow> Returns (ns, nm, True)
                   | None \<Rightarrow> Returns ('''', '''', False)))"

text \<open>\<^verbatim>\<open>Language.TranslationIDLookup\<close>, with its second result dropped by \<^verbatim>\<open>twoToOne\<close>.\<close>

definition TranslationIDLookup :: "languageDict \<Rightarrow> u32 \<Rightarrow> string outcome" where
  "TranslationIDLookup d index =
     (case translationIDLookup d index of
        Panics \<Rightarrow> Panics
      | Returns (ns, translationIDName, ok) \<Rightarrow>
          if ok then Returns (ns @ ''.'' @ translationIDName) else Returns '''')"

section \<open>Expanding a translation (processTranslation)\<close>

text \<open>
  The arguments of a call are \<^verbatim>\<open>interface{}\<close> values. The interpreter distinguishes a
  \<^verbatim>\<open>TransIndex\<close>, a string, the signed and the unsigned integer types (read through
  \<^verbatim>\<open>reflect\<close> as \<open>int64\<close> and \<open>uint64\<close>), a \<^verbatim>\<open>time.Time\<close>, a \<^verbatim>\<open>currency.Amount\<close>, the nil
  interface, and everything else.
\<close>

datatype argval =
    ANil
  | ATransIndex u32
  | AString string
  | ASigned u64
  | AUnsigned u64
  | ATime nat
  | ACurrency string int
  | AOther string

text \<open>
  Formatting belongs to external libraries and is a parameter: \<^verbatim>\<open>fmt.Fprintf\<close> with one
  verb, the language's \<^verbatim>\<open>message.Printer\<close>, \<^verbatim>\<open>currency.Symbol\<close>, and the language's
  \<^verbatim>\<open>lctime.Localizer\<close> (\<open>None\<close> when \<^verbatim>\<open>TimeLocalizer()\<close> returns an error).
\<close>

record formatting =
  sprintf :: "string \<Rightarrow> argval \<Rightarrow> string"
  printerSprintf :: "string \<Rightarrow> argval \<Rightarrow> string"
  currencySymbol :: "argval \<Rightarrow> argval"
  timeLocalizer :: "(string \<Rightarrow> nat \<Rightarrow> string) option"

definition fmtHasWidth :: u8 where "fmtHasWidth = 0x10"
definition fmtHasPrecision :: u8 where "fmtHasPrecision = 0x20"
definition fmtPadRight :: u8 where "fmtPadRight = 0x40"
definition fmtPad0 :: u8 where "fmtPad0 = 0x80"
definition varReplacementChar :: u8 where "varReplacementChar = 0xFF"

text \<open>\<^verbatim>\<open>strconv.FormatUint(n, 10)\<close>\<close>

function decimal :: "nat \<Rightarrow> string" where
  "decimal n = (if n < 10 then [char_of (48 + n)] else decimal (n div 10) @ [char_of (48 + n mod 10)])"
  by pat_completeness auto
termination
  by (relation "measure id") auto

declare decimal.simps [simp del]

text \<open>The closures \<^verbatim>\<open>consumeByte\<close> and \<^verbatim>\<open>consumeBytes\<close>; \<open>None\<close> is their error.\<close>

definition consumeByte :: "u8 list \<Rightarrow> nat \<Rightarrow> (u8 \<times> nat) option" where
  "consumeByte translation translationIndex =
     (if translationIndex \<ge> length translation then None
      else Some (translation ! translationIndex, translationIndex + 1))"

text \<open>
  \<^verbatim>\<open>translationIndex+numBytes-1 >= transLen\<close> is unsigned: with a sum of zero the
  subtraction wraps to the largest value and the test succeeds.
\<close>

definition consumeBytes :: "u8 list \<Rightarrow> nat \<Rightarrow> nat \<Rightarrow> (u8 list \<times> nat) option" where
  "consumeBytes translation translationIndex numBytes =
     (if translationIndex + numBytes = 0 \<or> translationIndex + numBytes - 1 \<ge> length translation
      then None
      else Some (take numBytes (drop translationIndex translation), translationIndex + numBytes))"

text \<open>
  The head of a placeholder, read after the sentinel byte: the variable number (checked
  against the number of arguments), the type and flags, and the printf flags with the
  optional width and precision.
\<close>

record placeholderHead =
  phVarNum :: nat
  phTypeFlags :: u8
  phPrintfFlags :: string
  phIndex :: nat

definition readWidth :: "u8 list \<Rightarrow> u8 \<Rightarrow> string \<Rightarrow> nat \<Rightarrow> varError + string \<times> nat" where
  "readWidth translation typeFlags printfFlags i =
     (if typeFlags AND fmtHasWidth \<noteq> 0 then
        (case consumeByte translation i of
           None \<Rightarrow> Inl MissingWidth
         | Some (b, i') \<Rightarrow>
             Inr (if b \<noteq> 0 then printfFlags @ decimal (unat b) else printfFlags, i'))
      else Inr (printfFlags, i))"

definition readPrecision :: "u8 list \<Rightarrow> u8 \<Rightarrow> string \<Rightarrow> nat \<Rightarrow> varError + string \<times> nat" where
  "readPrecision translation typeFlags printfFlags i =
     (if typeFlags AND fmtHasPrecision \<noteq> 0 then
        (case consumeByte translation i of
           None \<Rightarrow> Inl MissingPrecision
         | Some (b, i') \<Rightarrow> Inr (printfFlags @ ''.'' @ decimal (unat b), i'))
      else Inr (printfFlags, i))"

definition readHead :: "u8 list \<Rightarrow> nat \<Rightarrow> nat \<Rightarrow> varError + placeholderHead" where
  "readHead translation numArgs i =
     (case consumeByte translation i of
        None \<Rightarrow> Inl MissingVarNumSpecifier
      | Some (b, i1) \<Rightarrow>
          let varNum = unat b in
          if varNum > numArgs then Inl (MissingVariable varNum)
          else
            case consumeByte translation i1 of
              None \<Rightarrow> Inl MissingTypeFlags
            | Some (typeFlags, i2) \<Rightarrow>
                let f0 = ''%'';
                    f1 = (if typeFlags AND fmtPadRight \<noteq> 0 then f0 @ ''-'' else f0);
                    f2 = (if typeFlags AND fmtPad0 \<noteq> 0 then f1 @ ''0'' else f1)
                in case readWidth translation typeFlags f2 i2 of
                     Inl e \<Rightarrow> Inl e
                   | Inr (f3, i3) \<Rightarrow>
                       (case readPrecision translation typeFlags f3 i3 of
                          Inl e \<Rightarrow> Inl e
                        | Inr (f4, i4) \<Rightarrow>
                            Inr \<lparr>phVarNum = varNum, phTypeFlags = typeFlags,
                                 phPrintfFlags = f4, phIndex = i4\<rparr>))"

text \<open>
  What a placeholder asks for after it has been read: text to append, or the expansion
  of another translation.
\<close>

datatype action = Emit string | Embed u32

definition varTypePrintfChar :: string where
  "varTypePrintfChar = ''vsdboxXeft------''"

text \<open>\<^verbatim>\<open>TransIndex(*p2uint32p(&b[0]))\<close>: four bytes, little endian.\<close>

definition le32 :: "u8 list \<Rightarrow> u32" where
  "le32 b = ucast (b ! 0) + push_bit 8 (ucast (b ! 1)) + push_bit 16 (ucast (b ! 2))
            + push_bit 24 (ucast (b ! 3))"

definition dateTimePlaceholder ::
  "formatting \<Rightarrow> u8 list \<Rightarrow> argval \<Rightarrow> nat \<Rightarrow> varError + action \<times> nat" where
  "dateTimePlaceholder fm translation val i =
     (case timeLocalizer fm of
        None \<Rightarrow> Inl TimeLocalizerFailed
      | Some strftime \<Rightarrow>
          (case consumeByte translation i of
             None \<Rightarrow> Inl MissingSpecifierLen
           | Some (specifierLen, i1) \<Rightarrow>
               (case consumeBytes translation i1 (unat specifierLen) of
                  None \<Rightarrow> Inl MissingSpecifier
                | Some (specifier, i2) \<Rightarrow>
                    (case val of
                       ATime t \<Rightarrow> Inr (Emit (strftime (b2s specifier) t), i2)
                     | _ \<Rightarrow> Inl NotATime))))"

text \<open>
  A variable translation named by a string \<open>[Namespace.]TranslationID\<close>; without a dot
  the namespace is the one of the translation being processed.
\<close>

definition variableByName ::
  "languageDict \<Rightarrow> u32 \<Rightarrow> string \<Rightarrow> nat \<Rightarrow> (varError + action \<times> nat) outcome" where
  "variableByName d translationIDIndex v i =
     (case (case firstIndex (\<lambda>c. c = CHR ''.'') v of
              Some dotLoc \<Rightarrow> Returns (take dotLoc v, drop (dotLoc + 1) v)
            | None \<Rightarrow>
                (case translationIDLookupNS d translationIDIndex of
                   Panics \<Rightarrow> Panics
                 | Returns (ns, start, ok) \<Rightarrow> Returns (ns, v))) of
        Panics \<Rightarrow> Panics
      | Returns (myNamespaceName, translationID) \<Rightarrow>
          (case map_of (namespaces d) myNamespaceName of
             None \<Rightarrow> Returns (Inl (VariableInvalidNamespace myNamespaceName translationID))
           | Some n \<Rightarrow>
               (case map_of (ids n) translationID of
                  None \<Rightarrow>
                    Returns (Inl (VariableInvalidTranslationID myNamespaceName translationID))
                | Some newIndex \<Rightarrow> Returns (Inr (Embed newIndex, i)))))"

definition variablePlaceholder ::
  "languageDict \<Rightarrow> Language \<Rightarrow> u32 \<Rightarrow> argval \<Rightarrow> nat \<Rightarrow> (varError + action \<times> nat) outcome" where
  "variablePlaceholder d l translationIDIndex val i =
     (case val of
        ATransIndex v \<Rightarrow>
          Returns (if v \<ge> NumTranslations l then Inl VariableInvalidIndex else Inr (Embed v, i))
      | AString v \<Rightarrow> variableByName d translationIDIndex v i
      | ASigned v \<Rightarrow>
          Returns (if (ucast v :: u32) \<ge> NumTranslations l then Inl VariableInvalidIndex
                   else Inr (Embed (ucast v), i))
      | AUnsigned v \<Rightarrow>
          Returns (if (ucast v :: u32) \<ge> NumTranslations l then Inl VariableInvalidIndex
                   else Inr (Embed (ucast v), i))
      | ANil \<Rightarrow> Panics
      | _ \<Rightarrow> Returns (Inl VariableInvalidType))"

text \<open>
  One placeholder, from the byte after the sentinel up to the point where the loop either
  appends text or calls \<^verbatim>\<open>getReal\<close> for an embedded translation. The index
  expression \<^verbatim>\<open>args[varNum-1]\<close> panics when it is out of range.
\<close>

definition placeholder ::
  "languageDict \<Rightarrow> formatting \<Rightarrow> Language \<Rightarrow> u8 list \<Rightarrow> u64 \<Rightarrow> u32 \<Rightarrow> argval list \<Rightarrow> nat
   \<Rightarrow> (varError + action \<times> nat) outcome" where
  "placeholder d fm l translation pluralCount translationIDIndex args i =
     (case readHead translation (length args) i of
        Inl e \<Rightarrow> Returns (Inl e)
      | Inr h \<Rightarrow>
          if phVarNum h \<noteq> 0 \<and> phVarNum h - 1 \<ge> length args then Panics
          else
          let val = (if phVarNum h = 0 then AUnsigned (ucast (ucast pluralCount :: u32))
                     else args ! (phVarNum h - 1));
              t = unat (phTypeFlags h AND 0xF);
              vt = varTypePrintfChar ! t;
              flags = phPrintfFlags h;
              i1 = phIndex h
          in if vt \<noteq> CHR ''-'' then Returns (Inr (Emit (sprintf fm (flags @ [vt]) val), i1))
             else if t = 10 then Returns (dateTimePlaceholder fm translation val i1)
             else if t = 11 then
               (case val of
                  ACurrency cur amount \<Rightarrow>
                    Returns (Inr (Emit (printerSprintf fm (flags @ ''d'') (currencySymbol fm val)), i1))
                | _ \<Rightarrow> Returns (Inl NotACurrencyAmount))
             else if t = 12 then Returns (Inr (Emit (printerSprintf fm (flags @ ''d'') val), i1))
             else if t = 13 then Returns (Inr (Emit (printerSprintf fm (flags @ ''f'') val), i1))
             else if t = 14 then
               (case consumeBytes translation i1 4 of
                  None \<Rightarrow> Returns (Inl MissingStaticIndex)
                | Some (b, i2) \<Rightarrow>
                    if le32 b \<ge> NumTranslations l then Returns (Inl StaticInvalidIndex)
                    else Returns (Inr (Embed (le32 b), i2)))
             else if t = 15 then variablePlaceholder d l translationIDIndex val i1
             else Returns (Inl UnknownVariableType))"

text \<open>
  The error of a failed embedded translation carries the names of both translations
  (\<^verbatim>\<open>twoToOne(l.TranslationIDLookup(...))\<close>, evaluated left to right).
\<close>

definition embeddedFailure ::
  "languageDict \<Rightarrow> nat \<Rightarrow> u32 \<Rightarrow> u32 \<Rightarrow> getError \<Rightarrow> (string \<times> getError option) outcome" where
  "embeddedFailure d insertedVarNum translationIDIndex newIndex err =
     (case TranslationIDLookup d translationIDIndex of
        Panics \<Rightarrow> Panics
      | Returns outer \<Rightarrow>
          (case TranslationIDLookup d newIndex of
             Panics \<Rightarrow> Panics
           | Returns inner \<Rightarrow>
               Returns ('''', Some (InsertedVariable insertedVarNum (EmbeddedFailed outer inner err)))))"

section \<open>Retrieval and expansion (getReal and processTranslation)\<close>

text \<open>
  Facts for the termination of the mutual recursion: a selection is only made up to the
  embedding limit, and a placeholder always consumes bytes.
\<close>

lemma selectTranslation_Selected_depth:
  "selectTranslation st l index pluralCount embeddedCount = Some (Selected bs)
   \<Longrightarrow> embeddedCount \<le> maxEmbeddedCount"
  by (simp add: selectTranslation_def split: if_splits)

lemma consumeByte_index: "consumeByte tr i = Some (b, i') \<Longrightarrow> i' = i + 1"
  by (simp add: consumeByte_def split: if_splits)

lemma consumeBytes_index: "consumeBytes tr i k = Some (b, i') \<Longrightarrow> i' = i + k"
  by (simp add: consumeBytes_def split: if_splits)

lemma readWidth_index: "readWidth tr tf f i = Inr (f', i') \<Longrightarrow> i \<le> i'"
  by (auto simp: readWidth_def split: if_splits option.splits dest: consumeByte_index)

lemma readPrecision_index: "readPrecision tr tf f i = Inr (f', i') \<Longrightarrow> i \<le> i'"
  by (auto simp: readPrecision_def split: if_splits option.splits dest: consumeByte_index)

lemma readHead_index: "readHead tr n i = Inr h \<Longrightarrow> i < phIndex h"
  by (auto simp: readHead_def Let_def split: if_splits option.splits sum.splits
      dest!: consumeByte_index readWidth_index readPrecision_index)

lemma dateTimePlaceholder_index:
  "dateTimePlaceholder fm tr val i = Inr (a, i') \<Longrightarrow> i \<le> i'"
  by (auto simp: dateTimePlaceholder_def split: option.splits argval.splits
      dest!: consumeByte_index consumeBytes_index)

lemma variableByName_index:
  "variableByName d t v i = Returns (Inr (a, i')) \<Longrightarrow> i' = i"
  by (auto simp: variableByName_def split: option.splits outcome.splits prod.splits)

lemma variablePlaceholder_index:
  "variablePlaceholder d l t val i = Returns (Inr (a, i')) \<Longrightarrow> i' = i"
  by (auto simp: variablePlaceholder_def split: argval.splits if_splits
      dest: variableByName_index)

lemma placeholder_index:
  "placeholder d fm l tr pc t args i = Returns (Inr (a, i')) \<Longrightarrow> i < i'"
  by (auto simp: placeholder_def Let_def split: sum.splits if_splits argval.splits option.splits
      dest!: readHead_index dateTimePlaceholder_index variablePlaceholder_index consumeBytes_index)

text \<open>
  \<^verbatim>\<open>getReal\<close> and the loop of \<^verbatim>\<open>processTranslation\<close>. The loop carries its variables
  \<^verbatim>\<open>translationIndex\<close>, \<^verbatim>\<open>insertedVarNum\<close> and \<^verbatim>\<open>newString\<close>; \<^verbatim>\<open>processTranslation\<close> itself
  starts it with \<open>0\<close>, \<open>1\<close> and the empty string. Both are always called on the same
  language \<open>l\<close>, whichever language of the fallback chain the rule comes from. The
  value \<open>None\<close> means that the call never returns.
\<close>

function getReal ::
  "store \<Rightarrow> formatting \<Rightarrow> nat \<Rightarrow> u32 \<Rightarrow> u64 \<Rightarrow> nat \<Rightarrow> argval list
   \<Rightarrow> (string \<times> getError option) outcome option"
and processTranslation ::
  "store \<Rightarrow> formatting \<Rightarrow> nat \<Rightarrow> u8 list \<Rightarrow> u64 \<Rightarrow> u32 \<Rightarrow> nat \<Rightarrow> argval list
   \<Rightarrow> nat \<Rightarrow> nat \<Rightarrow> string \<Rightarrow> (string \<times> getError option) outcome option"
where
  "getReal st fm l index pluralCount embeddedCount args =
     (case selectTranslation st l index pluralCount embeddedCount of
        None \<Rightarrow> None
      | Some (Early r) \<Rightarrow> Some r
      | Some (Selected translation) \<Rightarrow>
          processTranslation st fm l translation pluralCount index embeddedCount args 0 1 [])"
| "processTranslation st fm l translation pluralCount translationIDIndex embeddedCount args
       translationIndex insertedVarNum newString =
     (if translationIndex \<ge> length translation then Some (Returns (newString, None))
      else
        case firstIndex (\<lambda>b. b = varReplacementChar) (drop translationIndex translation) of
          None \<Rightarrow> Some (Returns (newString @ b2s (drop translationIndex translation), None))
        | Some nextVarIndex \<Rightarrow>
            let written = newString @ b2s (take nextVarIndex (drop translationIndex translation));
                d = dicts st (dict (langs st l))
            in case placeholder d fm (langs st l) translation pluralCount translationIDIndex args
                      (translationIndex + nextVarIndex + 1) of
                 Panics \<Rightarrow> Some Panics
               | Returns (Inl e) \<Rightarrow> Some (Returns ('''', Some (InsertedVariable insertedVarNum e)))
               | Returns (Inr (Emit s, i)) \<Rightarrow>
                   processTranslation st fm l translation pluralCount translationIDIndex
                     embeddedCount args i (insertedVarNum + 1) (written @ s)
               | Returns (Inr (Embed newIndex, i)) \<Rightarrow>
                   (case getReal st fm l newIndex pluralCount (embeddedCount + 1) [] of
                      None \<Rightarrow> None
                    | Some Panics \<Rightarrow> Some Panics
                    | Some (Returns (embeddedStr, Some err)) \<Rightarrow>
                        Some (embeddedFailure d insertedVarNum translationIDIndex newIndex err)
                    | Some (Returns (embeddedStr, None)) \<Rightarrow>
                        processTranslation st fm l translation pluralCount translationIDIndex
                          embeddedCount args i (insertedVarNum + 1) (written @ embeddedStr)))"
  by pat_completeness auto
termination
  apply (relation "inv_image (less_than <*lex*> less_than)
       (\<lambda>x. case x of
          Inl (st, fm, l, index, pc, e, args) \<Rightarrow>
            (if e > maxEmbeddedCount then 0 else 2 * (maxEmbeddedCount + 1 - e) + 1, 0)
        | Inr (st, fm, l, tr, pc, t, e, args, i, n, out) \<Rightarrow>
            (if e > maxEmbeddedCount then 1 else 2 * (maxEmbeddedCount + 1 - e), length tr - i))")
  subgoal by (intro wf_inv_image wf_lex_prod wf_less_than)
  subgoal by (auto dest: selectTranslation_Selected_depth)
  subgoal by (auto dest!: placeholder_index)
  subgoal by (auto simp: maxEmbeddedCount_def)
  subgoal by (auto dest!: placeholder_index)
  done

declare getReal.simps [simp del] processTranslation.simps [simp del]

section \<open>The public retrieval functions\<close>

definition getRealNamed ::
  "store \<Rightarrow> formatting \<Rightarrow> nat \<Rightarrow> string \<Rightarrow> string \<Rightarrow> u64 \<Rightarrow> argval list
   \<Rightarrow> (string \<times> getError option) outcome option" where
  "getRealNamed st fm l ns translationID pluralCount args =
     (case map_of (namespaces (dicts st (dict (langs st l)))) ns of
        None \<Rightarrow> Some (Returns ('''', Some InvalidNamespace))
      | Some n \<Rightarrow>
          (case map_of (ids n) translationID of
             None \<Rightarrow> Some (Returns ('''', Some InvalidTranslationID))
           | Some index \<Rightarrow> getReal st fm l index pluralCount 0 args))"

text \<open>\<^verbatim>\<open>twoToOne\<close> keeps the first of two results.\<close>

definition twoToOne :: "('a \<times> 'b) outcome option \<Rightarrow> 'a outcome option" where
  "twoToOne r = map_option (map_outcome fst) r"

text \<open>
  A non-plural call passes \<open>-1\<close>; a plural call passes \<^verbatim>\<open>int64(pluralCount)\<close>, the same
  64 bits as the \<^verbatim>\<open>uint\<close> it was given.
\<close>

definition Get :: "store \<Rightarrow> formatting \<Rightarrow> nat \<Rightarrow> u32 \<Rightarrow> argval list
    \<Rightarrow> (string \<times> getError option) outcome option" where
  "Get st fm l index args = getReal st fm l index (- 1) 0 args"

definition GetPlural :: "store \<Rightarrow> formatting \<Rightarrow> nat \<Rightarrow> u32 \<Rightarrow> u64 \<Rightarrow> argval list
    \<Rightarrow> (string \<times> getError option) outcome option" where
  "GetPlural st fm l index pluralCount args = getReal st fm l index pluralCount 0 args"

definition MustGet :: "store \<Rightarrow> formatting \<Rightarrow> nat \<Rightarrow> u32 \<Rightarrow> argval list \<Rightarrow> string outcome option" where
  "MustGet st fm l index args = twoToOne (getReal st fm l index (- 1) 0 args)"

definition MustGetPlural :: "store \<Rightarrow> formatting \<Rightarrow> nat \<Rightarrow> u32 \<Rightarrow> u64 \<Rightarrow> argval list
    \<Rightarrow> string outcome option" where
  "MustGetPlural st fm l index pluralCount args = twoToOne (getReal st fm l index pluralCount 0 args)"

definition GetNamed :: "store \<Rightarrow> formatting \<Rightarrow> nat \<Rightarrow> string \<Rightarrow> string \<Rightarrow> argval list
    \<Rightarrow> (string \<times> getError option) outcome option" where
  "GetNamed st fm l ns translationID args = getRealNamed st fm l ns translationID (- 1) args"

definition GetPluralNamed :: "store \<Rightarrow> formatting \<Rightarrow> nat \<Rightarrow> string \<Rightarrow> string \<Rightarrow> u64 \<Rightarrow> argval list
    \<Rightarrow> (string \<times> getError option) outcome option" where
  "GetPluralNamed st fm l ns translationID pluralCount args =
     getRealNamed st fm l ns translationID pluralCount args"

definition MustGetNamed :: "store \<Rightarrow> formatting \<Rightarrow> nat \<Rightarrow> string \<Rightarrow> string \<Rightarrow> argval list
    \<Rightarrow> string outcome option" where
  "MustGetNamed st fm l ns translationID args =
     twoToOne (getRealNamed st fm l ns translationID (- 1) args)"

definition MustGetPluralNamed :: "store \<Rightarrow> formatting \<Rightarrow> nat \<Rightarrow> string \<Rightarrow> string \<Rightarrow> u64
    \<Rightarrow> argval list \<Rightarrow> string outcome option" where
  "MustGetPluralNamed st fm l ns translationID pluralCount args =
     twoToOne (getRealNamed st fm l ns translationID pluralCount args)"

section \<open>A small catalog for concrete evaluations\<close>

text \<open>
  One language, its own fallback (the default language), with three translations:
  \<open>NS.B\<close> with the rules \<open>=0\<close> (``zero'') and \<open>^\<close> (``many''), \<open>NS.One\<close> with the single
  rule \<open>=1\<close> (``one''), and \<open>NS.Hi\<close> with the rule \<open>^\<close> and the text \<open>Hi {{.x}}!\<close> for a
  string variable \<open>x\<close>.
\<close>

definition demoRules :: "translationRule list" where
  "demoRules =
     [\<lparr>startPos = 0, rule = \<lparr>op = 1, i0 = 0\<rparr>\<rparr>,
      \<lparr>startPos = 4, rule = \<lparr>op = 0, i0 = 0\<rparr>\<rparr>,
      \<lparr>startPos = 8, rule = \<lparr>op = 1, i0 = 1\<rparr>\<rparr>,
      \<lparr>startPos = 11, rule = \<lparr>op = 0, i0 = 0\<rparr>\<rparr>,
      \<lparr>startPos = 18, rule = \<lparr>op = 0, i0 = 0\<rparr>\<rparr>]"

definition demoLanguage :: Language where
  "demoLanguage =
     \<lparr>stringsData = s2b ''zeromanyoneHi '' @ [0xFF, 1, 1] @ s2b ''!'',
      rules = demoRules,
      translationSlices = [\<lparr>startIndex = 0\<rparr>, \<lparr>startIndex = 2\<rparr>, \<lparr>startIndex = 3\<rparr>,
                           \<lparr>startIndex = 4\<rparr>],
      dict = 0, fallback = Some 0, name = ''English'', fallbackName = '''',
      missingPluralRule = ''no rule'', languageIdentifier = ''en''\<rparr>"

definition demoDict :: languageDict where
  "demoDict =
     \<lparr>namespaces =
        [(''NS'', \<lparr>nsName = ''NS'', nsIndex = 0,
                   ids = [(''B'', 0), (''One'', 1), (''Hi'', 2)], idsInOrder = []\<rparr>)],
      namespacesInOrder = [''NS''], hash = None, hasVarsLoaded = False\<rparr>"

definition demoStore :: store where
  "demoStore = \<lparr>langs = (\<lambda>a. demoLanguage), dicts = (\<lambda>a. demoDict)\<rparr>"

text \<open>A formatter that prints a string argument as it is and anything else as \<open>?\<close>.\<close>

definition demoShow :: "string \<Rightarrow> argval \<Rightarrow> string" where
  "demoShow f v = (case v of AString s \<Rightarrow> s | _ \<Rightarrow> ''?'')"

definition demoFormatting :: formatting where
  "demoFormatting =
     \<lparr>sprintf = demoShow, printerSprintf = demoShow, currencySymbol = (\<lambda>v. v),
      timeLocalizer = None\<rparr>"

section \<open>Assigning the fallback language (SetFallback)\<close>

datatype fallbackError =
    FallbackAlreadySet
  | FallbackIsNil
  | FallbackIsParent
  | FallbackWithoutFallback
  | DictionariesDoNotMatch
  | FallbackIdentifierMismatch
  | FallbackNotDefault

text \<open>\<^verbatim>\<open>bytes.Equal\<close>: a nil slice equals an empty one.\<close>

definition bytesEqual :: "u8 list option \<Rightarrow> u8 list option \<Rightarrow> bool" where
  "bytesEqual a b = ((case a of None \<Rightarrow> [] | Some x \<Rightarrow> x) = (case b of None \<Rightarrow> [] | Some y \<Rightarrow> y))"

text \<open>
  \<^verbatim>\<open>func (l *Language) SetFallback(fallbackLanguage *Language) error\<close>. Languages are
  compared as pointers, dictionaries first as pointers and then by hash. The result is
  the store after the call and the error (\<open>None\<close> for \<^verbatim>\<open>nil\<close>).
\<close>

definition SetFallback :: "store \<Rightarrow> nat \<Rightarrow> nat option \<Rightarrow> store \<times> fallbackError option" where
  "SetFallback st l fallbackLanguage =
     (if fallback (langs st l) \<noteq> None then (st, Some FallbackAlreadySet)
      else
        case fallbackLanguage of
          None \<Rightarrow> (st, Some FallbackIsNil)
        | Some f \<Rightarrow>
            if l = f then (st, Some FallbackIsParent)
            else if fallback (langs st f) = None then (st, Some FallbackWithoutFallback)
            else if dict (langs st l) \<noteq> dict (langs st f)
                    \<and> \<not> bytesEqual (hash (dicts st (dict (langs st l))))
                                     (hash (dicts st (dict (langs st f))))
              then (st, Some DictionariesDoNotMatch)
            else
              let done = (st\<lparr>langs := (langs st)(l := (langs st l)\<lparr>fallback := Some f\<rparr>)\<rparr>, None)
              in if fallbackName (langs st l) \<noteq> languageIdentifier (langs st f) then
                   (if fallbackName (langs st l) \<noteq> '''' then (st, Some FallbackIdentifierMismatch)
                    else if fallback (langs st f) \<noteq> Some f then (st, Some FallbackNotDefault)
                    else done)
                 else done)"

text \<open>
  The conditions under which the specification lets \<open>setFallback(other)\<close> fail: the
  fallback is already set; \<open>other\<close> is the language itself; \<open>other\<close> has no fallback
  yet; the dictionary hashes differ; the declared fallback name disagrees with the
  identifier of \<open>other\<close>, unless the name is empty and \<open>other\<close> is the default language
  (its own fallback).
\<close>

definition fallbackRejected :: "store \<Rightarrow> nat \<Rightarrow> nat \<Rightarrow> bool" where
  "fallbackRejected st l f =
     (fallback (langs st l) \<noteq> None
      \<or> l = f
      \<or> fallback (langs st f) = None
      \<or> \<not> bytesEqual (hash (dicts st (dict (langs st l)))) (hash (dicts st (dict (langs st f))))
      \<or> (fallbackName (langs st l) \<noteq> languageIdentifier (langs st f)
          \<and> \<not> (fallbackName (langs st l) = '''' \<and> fallback (langs st f) = Some f)))"

text \<open>Two languages for concrete evaluations: address 0 is the default language, every other address holds the second one.\<close>

definition frenchLanguage :: Language where
  "frenchLanguage =
     \<lparr>stringsData = [], rules = [\<lparr>startPos = 0, rule = \<lparr>op = 0, i0 = 0\<rparr>\<rparr>],
      translationSlices = [\<lparr>startIndex = 0\<rparr>, \<lparr>startIndex = 0\<rparr>, \<lparr>startIndex = 0\<rparr>,
                           \<lparr>startIndex = 0\<rparr>],
      dict = 0, fallback = None, name = ''French'', fallbackName = '''',
      missingPluralRule = ''pas de regle'', languageIdentifier = ''fr''\<rparr>"

definition twoLanguages :: store where
  "twoLanguages =
     \<lparr>langs = (\<lambda>a. if a = 0 then demoLanguage else frenchLanguage), dicts = (\<lambda>a. demoDict)\<rparr>"

section \<open>The compiled dictionary file: writing (languageDict.toCompiledFile)\<close>

text \<open>Little-endian encoding of a number in \<open>k\<close> bytes, and decoding.\<close>

fun encLE :: "nat \<Rightarrow> nat \<Rightarrow> u8 list" where
  "encLE 0 n = []"
| "encLE (Suc k) n = of_nat (n mod 256) # encLE k (n div 256)"

fun decLE :: "u8 list \<Rightarrow> nat" where
  "decLE [] = 0"
| "decLE (b # bs) = unat b + 256 * decLE bs"

text \<open>
  \<^verbatim>\<open>storeDictHeader\<close>: three bytes of file type, one byte of padding (the \<open>uint32\<close> fields
  are aligned), and four \<open>uint32\<close>, 20 bytes in all. The padding byte of the struct
  literal is written as zero and ignored on reading.
\<close>

record storeDictHeader =
  dhFileType :: "u8 list"
  dhNumTranslations :: u32
  dhNumNamespaces :: u32
  dhIdsSize :: u32
  dhNamespacesSize :: u32

definition size_storeDictHeader :: nat where "size_storeDictHeader = 20"
definition size_storeTranslationIDsSize :: nat where "size_storeTranslationIDsSize = 2"
definition size_storeNamespace :: nat where "size_storeNamespace = 4"

definition encDictHeader :: "storeDictHeader \<Rightarrow> u8 list" where
  "encDictHeader h =
     dhFileType h @ [0] @ encLE 4 (unat (dhNumTranslations h)) @ encLE 4 (unat (dhNumNamespaces h))
     @ encLE 4 (unat (dhIdsSize h)) @ encLE 4 (unat (dhNamespacesSize h))"

definition decDictHeader :: "u8 list \<Rightarrow> storeDictHeader" where
  "decDictHeader b =
     \<lparr>dhFileType = take 3 b,
      dhNumTranslations = of_nat (decLE (take 4 (drop 4 b))),
      dhNumNamespaces = of_nat (decLE (take 4 (drop 8 b))),
      dhIdsSize = of_nat (decLE (take 4 (drop 12 b))),
      dhNamespacesSize = of_nat (decLE (take 4 (drop 16 b)))\<rparr>"

text \<open>
  \<^verbatim>\<open>storeDictHeader.getCompiledFileSize\<close>, a \<open>uint64\<close> that cannot overflow. Sizes that
  are compared with large constants are integers.
\<close>

definition dictCompiledFileSize :: "storeDictHeader \<Rightarrow> int" where
  "dictCompiledFileSize h =
     int size_storeDictHeader
     + uint (dhNumTranslations h) * int size_storeTranslationIDsSize
     + uint (dhNumNamespaces h) * int size_storeNamespace
     + uint (dhIdsSize h) + uint (dhNamespacesSize h)"

definition MaxUint32 :: int where "MaxUint32 = 4294967295"

text \<open>An assignment \<^verbatim>\<open>xs[i] = v\<close>; it panics when \<open>i\<close> is out of range.\<close>

definition assignAt :: "'a list \<Rightarrow> nat \<Rightarrow> 'a \<Rightarrow> 'a list outcome" where
  "assignAt xs i v = (if i < length xs then Returns (xs[i := v]) else Panics)"

text \<open>
  The arrays the writer fills from the namespaces: the namespace names and the
  \<^verbatim>\<open>storeNamespace\<close> entries by namespace index, the translation IDs and their sizes by
  \<^verbatim>\<open>TransIndex\<close>. A \<^verbatim>\<open>storeNamespace\<close> is the number of IDs in three bytes and the length of
  the name in one.
\<close>

record dictArrays =
  namespaceNames :: "string list"
  writeNamespaces :: "(u32 \<times> u8) list"
  translationIDs :: "string list"
  translationIDSizes :: "u16 list"

fun placeIDs :: "(string \<times> u32) list \<Rightarrow> dictArrays \<Rightarrow> dictArrays outcome" where
  "placeIDs [] a = Returns a"
| "placeIDs ((nm, index) # rest) a =
     (case assignAt (translationIDs a) (unat index) nm of
        Panics \<Rightarrow> Panics
      | Returns tids \<Rightarrow>
          (case assignAt (translationIDSizes a) (unat index) (of_nat (length nm)) of
             Panics \<Rightarrow> Panics
           | Returns sizes \<Rightarrow>
               placeIDs rest (a\<lparr>translationIDs := tids, translationIDSizes := sizes\<rparr>)))"

fun placeNamespaces :: "(string \<times> namespace) list \<Rightarrow> dictArrays \<Rightarrow> dictArrays outcome" where
  "placeNamespaces [] a = Returns a"
| "placeNamespaces ((key, n) # rest) a =
     (case assignAt (namespaceNames a) (nsIndex n) (nsName n) of
        Panics \<Rightarrow> Panics
      | Returns names \<Rightarrow>
          (case placeIDs (ids n) (a\<lparr>namespaceNames := names\<rparr>) of
             Panics \<Rightarrow> Panics
           | Returns a1 \<Rightarrow>
               (case assignAt (writeNamespaces a1) (nsIndex n)
                       (of_nat (length (ids n)) AND 0xFFFFFF, of_nat (length (nsName n))) of
                  Panics \<Rightarrow> Panics
                | Returns wns \<Rightarrow> placeNamespaces rest (a1\<lparr>writeNamespaces := wns\<rparr>))))"

definition encNamespace :: "u32 \<times> u8 \<Rightarrow> u8 list" where
  "encNamespace e = encLE 3 (unat (fst e)) @ [snd e]"

datatype writeError = FileTooLarge | OutputSizeMismatch

text \<open>
  The writer, on a sink that accepts every byte (\<^verbatim>\<open>io.Discard\<close>, a buffer). The SHA-1
  function of the library is the parameter \<open>sha1\<close>. The result is the stream written and
  the dictionary afterwards: its hash is set when it was nil. \<^verbatim>\<open>&translationIDSizes[0]\<close>
  and \<^verbatim>\<open>&writeNamespaces[0]\<close> panic on an empty array.
\<close>

definition numTranslationsOf :: "languageDict \<Rightarrow> nat" where
  "numTranslationsOf d = sum_list (map (\<lambda>(key, n). length (ids n)) (namespaces d))"

definition dictToCompiledFile ::
  "(u8 list \<Rightarrow> u8 list) \<Rightarrow> languageDict \<Rightarrow> (writeError + u8 list \<times> languageDict) outcome" where
  "dictToCompiledFile sha1 d =
     (let numTranslations = numTranslationsOf d;
          numNamespaces = length (namespaces d)
      in case placeNamespaces (namespaces d)
                \<lparr>namespaceNames = replicate numNamespaces '''',
                 writeNamespaces = replicate numNamespaces (0, 0),
                 translationIDs = replicate numTranslations '''',
                 translationIDSizes = replicate numTranslations 0\<rparr> of
           Panics \<Rightarrow> Panics
         | Returns a \<Rightarrow>
             let namespaceNamesString = concat (namespaceNames a);
                 translationIDsString = concat (translationIDs a);
                 header = \<lparr>dhFileType = s2b ''DTR'',
                           dhNumTranslations = of_nat numTranslations,
                           dhNumNamespaces = of_nat numNamespaces,
                           dhIdsSize = of_nat (length translationIDsString),
                           dhNamespacesSize = of_nat (length namespaceNamesString)\<rparr>;
                 newFileSize = dictCompiledFileSize header
             in if newFileSize > MaxUint32 then Returns (Inl FileTooLarge)
                else if numTranslations = 0 \<or> numNamespaces = 0 then Panics
                else
                  let written =
                        encDictHeader header
                        @ concat (map (\<lambda>s. encLE 2 (unat s))
                                   (take (unat (dhNumTranslations header)) (translationIDSizes a)))
                        @ s2b translationIDsString
                        @ concat (map encNamespace
                                   (take (unat (dhNumNamespaces header)) (writeNamespaces a)))
                        @ s2b namespaceNamesString
                  in if int (length written) \<noteq> newFileSize then Returns (Inl OutputSizeMismatch)
                     else Returns (Inr (written,
                            d\<lparr>hash := (if hash d = None then Some (sha1 written) else hash d)\<rparr>)))"

section \<open>The text form: documents\<close>

text \<open>
  The front ends (YAML, JSON) hand over an ordered map of named items; an item is a
  string, an object (again an ordered map), or something else (\<^verbatim>\<open>getString\<close> and
  \<^verbatim>\<open>getObject\<close> both fail). A key can be any byte string, also the empty one.
\<close>

datatype tpItem =
    tpString string string
  | tpObject string "tpItem list"
  | tpOther string

fun getName :: "tpItem \<Rightarrow> string" where
  "getName (tpString nm v) = nm"
| "getName (tpObject nm items) = nm"
| "getName (tpOther nm) = nm"

fun getObject :: "tpItem \<Rightarrow> tpItem list option" where
  "getObject (tpObject nm items) = Some items"
| "getObject other = None"

fun getString :: "tpItem \<Rightarrow> string option" where
  "getString (tpString nm v) = Some v"
| "getString other = None"

text \<open>
  The regular expressions over Unicode classes and \<^verbatim>\<open>strings.ToUpper\<close> belong to the
  standard library and are parameters: \<^verbatim>\<open>^[A-Z][\pL\pN_]*$\<close>, \<^verbatim>\<open>^[\pL\pN_]+$\<close>.
\<close>

record textLibrary =
  matchTranslationID :: "string \<Rightarrow> bool"
  matchVariableName :: "string \<Rightarrow> bool"
  toUpper :: "string \<Rightarrow> string"

text \<open>\<^verbatim>\<open>^\w+$\<close>: one or more of the ASCII letters, digits and the underscore.\<close>

definition isWordChar :: "char \<Rightarrow> bool" where
  "isWordChar c =
     (let b = byteOf c in
      (0x30 \<le> b \<and> b \<le> 0x39) \<or> (0x41 \<le> b \<and> b \<le> 0x5A) \<or> (0x61 \<le> b \<and> b \<le> 0x7A) \<or> b = 0x5F)"

definition matchNamespaceName :: "string \<Rightarrow> bool" where
  "matchNamespaceName s = (s \<noteq> [] \<and> list_all isWordChar s)"

section \<open>The text form: building the dictionary (languageDict.fromTextFile)\<close>

datatype dictTextError =
    NamespaceTooLong string
  | NamespaceBadCharacters string
  | NamespaceStartsWithDigit string
  | NamespaceUsedTwice string
  | NamespaceNotADictionary string
  | IDTooLong string string
  | IDBadStart string string
  | IDBadCharacters string string
  | IDUsedTwice string string
  | Uint32Overflow
  | SoftCapExceeded
  | DictionaryFileTooLarge

text \<open>
  The loop over the translation IDs of one namespace. \<^verbatim>\<open>translationID[0]\<close> is read
  after the length has only been checked from above: on an empty key it panics.
\<close>

record idLoop =
  ilIds :: "(string \<times> u32) list"
  ilIdsInOrder :: "translationIDNameAndVars list"
  ilNumTranslations :: nat
  ilIdsSize :: nat
  ilErrors :: "dictTextError list"

fun storeIDs :: "textLibrary \<Rightarrow> string \<Rightarrow> tpItem list \<Rightarrow> idLoop \<Rightarrow> idLoop outcome" where
  "storeIDs lib namespaceName [] s = Returns s"
| "storeIDs lib namespaceName (val # rest) s =
     (let translationID = getName val in
      if int (length translationID) > 65535 then
        storeIDs lib namespaceName rest
          (s\<lparr>ilErrors := ilErrors s @ [IDTooLong namespaceName translationID]\<rparr>)
      else if translationID = [] then Panics
      else if byteOf (translationID ! 0) < 0x41 \<or> byteOf (translationID ! 0) > 0x5A then
        storeIDs lib namespaceName rest
          (s\<lparr>ilErrors := ilErrors s @ [IDBadStart namespaceName translationID]\<rparr>)
      else if \<not> matchTranslationID lib translationID then
        storeIDs lib namespaceName rest
          (s\<lparr>ilErrors := ilErrors s @ [IDBadCharacters namespaceName translationID]\<rparr>)
      else if map_of (ilIds s) translationID \<noteq> None then
        storeIDs lib namespaceName rest
          (s\<lparr>ilErrors := ilErrors s @ [IDUsedTwice namespaceName translationID]\<rparr>)
      else
        storeIDs lib namespaceName rest
          (s\<lparr>ilIds := ilIds s @ [(translationID, of_nat (ilNumTranslations s))],
             ilIdsInOrder := ilIdsInOrder s @ [\<lparr>idName = translationID, idVars = []\<rparr>],
             ilNumTranslations := ilNumTranslations s + 1,
             ilIdsSize := ilIdsSize s + length translationID\<rparr>))"

text \<open>The loop over the namespaces of the document.\<close>

record nsLoop =
  nlNamespaces :: "(string \<times> namespace) list"
  nlNamespacesInOrder :: "string list"
  nlNumTranslations :: nat
  nlNamespacesSize :: nat
  nlIdsSize :: nat
  nlErrors :: "dictTextError list"

fun readNamespaces :: "textLibrary \<Rightarrow> tpItem list \<Rightarrow> nsLoop \<Rightarrow> nsLoop outcome" where
  "readNamespaces lib [] s = Returns s"
| "readNamespaces lib (itemVal # rest) s =
     (let namespaceName = getName itemVal in
      if namespaceName = ''Settings'' then readNamespaces lib rest s
      else if length namespaceName > 255 then
        readNamespaces lib rest (s\<lparr>nlErrors := nlErrors s @ [NamespaceTooLong namespaceName]\<rparr>)
      else if \<not> matchNamespaceName namespaceName then
        readNamespaces lib rest
          (s\<lparr>nlErrors := nlErrors s @ [NamespaceBadCharacters namespaceName]\<rparr>)
      else if isDigit (namespaceName ! 0) then
        readNamespaces lib rest
          (s\<lparr>nlErrors := nlErrors s @ [NamespaceStartsWithDigit namespaceName]\<rparr>)
      else if map_of (nlNamespaces s) namespaceName \<noteq> None then
        readNamespaces lib rest (s\<lparr>nlErrors := nlErrors s @ [NamespaceUsedTwice namespaceName]\<rparr>)
      else
        case getObject itemVal of
          None \<Rightarrow>
            readNamespaces lib rest
              (s\<lparr>nlErrors := nlErrors s @ [NamespaceNotADictionary namespaceName]\<rparr>)
        | Some idsList \<Rightarrow>
            (case storeIDs lib namespaceName idsList
                    \<lparr>ilIds = [], ilIdsInOrder = [], ilNumTranslations = nlNumTranslations s,
                     ilIdsSize = nlIdsSize s, ilErrors = nlErrors s\<rparr> of
               Panics \<Rightarrow> Panics
             | Returns r \<Rightarrow>
                 readNamespaces lib rest
                   \<lparr>nlNamespaces = nlNamespaces s @
                      [(namespaceName,
                        \<lparr>nsName = namespaceName, nsIndex = length (nlNamespaces s),
                         ids = ilIds r, idsInOrder = ilIdsInOrder r\<rparr>)],
                    nlNamespacesInOrder = nlNamespacesInOrder s @ [namespaceName],
                    nlNumTranslations = ilNumTranslations r,
                    nlNamespacesSize = nlNamespacesSize s + length namespaceName,
                    nlIdsSize = ilIdsSize r,
                    nlErrors = ilErrors r\<rparr>))"

text \<open>\<^verbatim>\<open>storeDictHeader.checkSoftCaps\<close>\<close>

definition dictSoftCapsOk :: "storeDictHeader \<Rightarrow> bool" where
  "dictSoftCapsOk h =
     (dhNumTranslations h \<le> 1000000 \<and> dhNumNamespaces h \<le> 1000
      \<and> dhIdsSize h \<le> 33554432 \<and> dhNamespacesSize h \<le> 1048576)"

text \<open>
  \<^verbatim>\<open>languageDict.fromTextFile\<close>, called on the fresh dictionary of the default language
  (\<^verbatim>\<open>hasVarsLoaded\<close> is true, the hash nil). When no limit is exceeded the dictionary is
  written to \<^verbatim>\<open>io.Discard\<close> to obtain its hash; the error of that call is dropped. The
  result is the dictionary and the list of errors.
\<close>

definition dictFromTextFile ::
  "(u8 list \<Rightarrow> u8 list) \<Rightarrow> textLibrary \<Rightarrow> tpItem list \<Rightarrow> (languageDict \<times> dictTextError list) outcome" where
  "dictFromTextFile sha1 lib readNs =
     (case readNamespaces lib readNs
             \<lparr>nlNamespaces = [], nlNamespacesInOrder = [], nlNumTranslations = 0,
              nlNamespacesSize = 0, nlIdsSize = 0, nlErrors = []\<rparr> of
        Panics \<Rightarrow> Panics
      | Returns s \<Rightarrow>
          let d = \<lparr>namespaces = nlNamespaces s, namespacesInOrder = nlNamespacesInOrder s,
                   hash = None, hasVarsLoaded = True\<rparr>;
              header = \<lparr>dhFileType = [0, 0, 0],
                        dhNumTranslations = of_nat (nlNumTranslations s),
                        dhNumNamespaces = of_nat (length (nlNamespaces s)),
                        dhIdsSize = of_nat (nlIdsSize s),
                        dhNamespacesSize = of_nat (nlNamespacesSize s)\<rparr>
          in if int (nlNumTranslations s) > MaxUint32 \<or> int (length (nlNamespaces s)) > MaxUint32
                \<or> int (nlNamespacesSize s) > MaxUint32 \<or> int (nlIdsSize s) > MaxUint32
             then Returns (d, nlErrors s @ [Uint32Overflow])
             else if \<not> dictSoftCapsOk header then Returns (d, nlErrors s @ [SoftCapExceeded])
             else if dictCompiledFileSize header > MaxUint32
             then Returns (d, nlErrors s @ [DictionaryFileTooLarge])
             else
               (case dictToCompiledFile sha1 d of
                  Panics \<Rightarrow> Panics
                | Returns (Inl e) \<Rightarrow> Returns (d, nlErrors s)
                | Returns (Inr (written, d')) \<Rightarrow> Returns (d', nlErrors s)))"

section \<open>The text form: the properties of one translation (addTranslationIDFromTextFile)\<close>

definition variableTypeMap :: "(string \<times> variableType) list" where
  "variableTypeMap =
     [(''ANYTHING'', vtAnything), (''STRING'', vtString), (''INTEGER'', vtInteger),
      (''BINARY'', vtBinary), (''OCTAL'', vtOctal), (''HEXLOWER'', vtHexLower),
      (''HEXUPPER'', vtHexUpper), (''SCIENTIFIC'', vtScientific), (''FLOATING'', vtFloating),
      (''BOOL'', vtBool), (''DATETIME'', vtDateTime), (''CURRENCY'', vtCurrency),
      (''INTEGERWITHSYMBOLS'', vtIntegerWithSymbols), (''FLOATWITHSYMBOLS'', vtFloatWithSymbols),
      (''STATICTRANSLATION'', vtStaticTranslation),
      (''VARIABLETRANSLATION'', vtVariableTranslation)]"

datatype propError =
    BadPluralRule string ruleError
  | TooManyPluralRules
  | TooManyVariables
  | InvalidVariableName string
  | VariableNameTooLong string
  | VariableDeclaredTwice string
  | InvalidVariableType string string

datatype propWarning =
    VariableNotInDefault nat
  | VariableDiffersFromDefault nat
  | VariableCountDiffers nat nat

text \<open>
  The state of the loop over the property tuples: the map \<^verbatim>\<open>varProps\<close> (it starts with
  \<open>PluralCount\<close> as variable 0), the rules found, and the variables of the translation
  in the dictionary (\<^verbatim>\<open>vars.vars\<close>, nil for a translation that has none yet).
\<close>

record propLoop =
  plErrors :: "propError list"
  plWarnings :: "propWarning list"
  plVarProps :: "(string \<times> u8 \<times> variableType) list"
  plRules :: "(string \<times> pluralRule) list"
  plTooManyPlural :: bool
  plNumVars :: nat
  plVars :: "translationIDVar list"

definition declareVariable ::
  "textLibrary \<Rightarrow> bool \<Rightarrow> string \<Rightarrow> string \<Rightarrow> propLoop \<Rightarrow> propLoop" where
  "declareVariable lib isDefaultLanguage propName propVal s0 =
     (let s = s0\<lparr>plNumVars := plNumVars s0 + 1\<rparr> in
      if plNumVars s = 256 then s\<lparr>plErrors := plErrors s @ [TooManyVariables]\<rparr>
      else if \<not> matchVariableName lib propName then
        s\<lparr>plErrors := plErrors s @ [InvalidVariableName propName]\<rparr>
      else if length propName > 255 then
        s\<lparr>plErrors := plErrors s @ [VariableNameTooLong propName]\<rparr>
      else if map_of (plVarProps s) propName \<noteq> None then
        s\<lparr>plErrors := plErrors s @ [VariableDeclaredTwice propName]\<rparr>
      else
        case map_of variableTypeMap (toUpper lib propVal) of
          None \<Rightarrow> s\<lparr>plErrors := plErrors s @ [InvalidVariableType propName propVal]\<rparr>
        | Some t \<Rightarrow>
            if t = vtStaticTranslation then
              s\<lparr>plErrors := plErrors s @ [InvalidVariableType propName propVal]\<rparr>
            else
              let varIndex = length (plVarProps s);
                  s1 = s\<lparr>plVarProps := plVarProps s @ [(propName, of_nat varIndex, t)]\<rparr>
              in if isDefaultLanguage then
                   s1\<lparr>plVars := plVars s1 @ [\<lparr>varName = propName, varType = t\<rparr>]\<rparr>
                 else if varIndex > length (plVars s1) then
                   s1\<lparr>plWarnings := plWarnings s1 @ [VariableNotInDefault varIndex]\<rparr>
                 else if varIndex = 0 then s1
                 else if plVars s1 ! (varIndex - 1) \<noteq> \<lparr>varName = propName, varType = t\<rparr> then
                   s1\<lparr>plWarnings := plWarnings s1 @ [VariableDiffersFromDefault varIndex]\<rparr>
                 else s1)"

definition declareRule :: "string \<Rightarrow> string \<Rightarrow> propLoop \<Rightarrow> propLoop outcome" where
  "declareRule propName propVal s =
     (case createPluralRule propName of
        Inl IndexOutOfRange \<Rightarrow> Panics
      | Inl e \<Rightarrow> Returns (s\<lparr>plErrors := plErrors s @ [BadPluralRule propName e]\<rparr>)
      | Inr r \<Rightarrow>
          if length (plRules s) \<ge> 255 then
            Returns (s\<lparr>plErrors := (if plTooManyPlural s then plErrors s
                                        else plErrors s @ [TooManyPluralRules]),
                        plTooManyPlural := True\<rparr>)
          else Returns (s\<lparr>plRules := plRules s @ [(propVal, r)]\<rparr>))"

text \<open>
  The loop \<^verbatim>\<open>for i := 0; i < len(props); i += 2\<close> over the tuples (name, value). Each
  property is classified by \<^verbatim>\<open>propName[0]\<close>, which panics on an empty name.
\<close>

fun processProps ::
  "textLibrary \<Rightarrow> bool \<Rightarrow> (string \<times> string) list \<Rightarrow> propLoop \<Rightarrow> propLoop outcome" where
  "processProps lib isDefaultLanguage [] s = Returns s"
| "processProps lib isDefaultLanguage ((propName, propVal) # rest) s =
     (if propName = [] then Panics
      else if propName ! 0 = CHR 0x5C then processProps lib isDefaultLanguage rest s
      else if propName ! 0 \<in> {CHR ''^'', CHR ''='', CHR ''<'', CHR ''>'', CHR ''~''} then
        (case declareRule propName propVal s of
           Panics \<Rightarrow> Panics
         | Returns s1 \<Rightarrow> processProps lib isDefaultLanguage rest s1)
      else
        processProps lib isDefaultLanguage rest
          (declareVariable lib isDefaultLanguage propName propVal s))"

text \<open>
  The first half of \<^verbatim>\<open>addTranslationIDFromTextFile\<close>: the properties of a translation
  with the variables \<open>vars\<close> it has in the dictionary.
\<close>

definition readProperties ::
  "textLibrary \<Rightarrow> (string \<times> string) list \<Rightarrow> translationIDVar list \<Rightarrow> propLoop outcome" where
  "readProperties lib props vs =
     (let isDefaultLanguage = (vs = []) in
      case processProps lib isDefaultLanguage props
             \<lparr>plErrors = [], plWarnings = [],
              plVarProps = [(''PluralCount'', 0, vtIntegerWithSymbols)],
              plRules = [], plTooManyPlural = False, plNumVars = 0, plVars = vs\<rparr> of
        Panics \<Rightarrow> Panics
      | Returns s \<Rightarrow>
          if \<not> isDefaultLanguage \<and> plNumVars s \<noteq> length (plVars s) then
            Returns (s\<lparr>plWarnings := plWarnings s
                          @ [VariableCountDiffers (plNumVars s) (length (plVars s))]\<rparr>)
          else Returns s)"

text \<open>The properties of a translation item, as \<^verbatim>\<open>Language.fromTextFile\<close> collects them.\<close>

datatype itemProps =
    Props "(string \<times> string) list" "string list"
  | InvalidItem

fun propsOfItems :: "tpItem list \<Rightarrow> (string \<times> string) list \<times> string list" where
  "propsOfItems [] = ([], [])"
| "propsOfItems (mapItemVal # rest) =
     (case getString mapItemVal of
        None \<Rightarrow> (fst (propsOfItems rest), getName mapItemVal # snd (propsOfItems rest))
      | Some propVal \<Rightarrow> ((getName mapItemVal, propVal) # fst (propsOfItems rest), snd (propsOfItems rest)))"

definition propsOfItem :: "tpItem \<Rightarrow> itemProps" where
  "propsOfItem val =
     (case getString val of
        Some strVal \<Rightarrow> Props [(''^'', strVal)] []
      | None \<Rightarrow>
          (case getObject val of
             Some mapVal \<Rightarrow> Props (fst (propsOfItems mapVal)) (snd (propsOfItems mapVal))
           | None \<Rightarrow> InvalidItem))"

section \<open>Reading compiled files: the reader and readDataToStruct\<close>

datatype readError =
    FileEndedEarly
  | InvalidFileHeader
  | InvalidTranslationStringSize
  | SoftCapViolated
  | DictionaryDoesNotMatch
  | NumTranslationsMismatch
  | InvalidSettingsLength
  | InvalidStringLength
  | InvalidLanguageTag
  | SettingsNotConsumed
  | SectionReadError
  | LengthExceeded nat
  | LengthNotReached
  | NamespaceNamesExceeded
  | EndOfFileNotReached

text \<open>
  The \<^verbatim>\<open>io.Reader\<close> is a byte stream with a position. The closure \<^verbatim>\<open>readBytes\<close> asks for
  exactly \<open>n\<close> bytes: it adds \<open>n\<close> to \<^verbatim>\<open>numBytesRead\<close>, and fails (``File ended early'')
  when fewer bytes are left. It never looks whether more bytes follow. The byte offsets
  that the error messages carry are left out.
\<close>

record reader =
  rdStream :: "u8 list"
  rdPos :: nat
  rdNumBytesRead :: nat

definition readBytes :: "reader \<Rightarrow> nat \<Rightarrow> reader \<times> u8 list option" where
  "readBytes rd n =
     (let rd' = rd\<lparr>rdPos := rdPos rd + n, rdNumBytesRead := rdNumBytesRead rd + n\<rparr> in
      if rdPos rd + n \<le> length (rdStream rd)
      then (rd', Some (take n (drop (rdPos rd) (rdStream rd))))
      else (rd', None))"

text \<open>
  The loop of \<^verbatim>\<open>readDataToStruct\<close> over the lengths of the elements: each element starts
  at the accumulated length, which is a \<open>uint32\<close>. The result is the list of start
  values and the final accumulated length, or the index at which the end position
  exceeded the expected length.
\<close>

fun accumulate :: "u32 list \<Rightarrow> u32 \<Rightarrow> nat \<Rightarrow> u32 \<Rightarrow> nat + u32 list \<times> u32" where
  "accumulate [] expectedReadLen i accum = Inr ([], accum)"
| "accumulate (len # rest) expectedReadLen i accum =
     (let EndPos = accum + len in
      if EndPos > expectedReadLen then Inl i
      else
        case accumulate rest expectedReadLen (i + 1) EndPos of
          Inl e \<Rightarrow> Inl e
        | Inr (starts, final) \<Rightarrow> Inr (accum # starts, final))"

text \<open>The \<open>i\<close>-th element of \<open>k\<close> bytes of a buffer.\<close>

definition element :: "nat \<Rightarrow> u8 list \<Rightarrow> nat \<Rightarrow> u8 list" where
  "element k buf i = take k (drop (i * k) buf)"

text \<open>
  What \<^verbatim>\<open>readDataToStruct\<close> delivers to its callback: the elements read with their start
  values, the final accumulated length (for the extra value at the end), and the bytes
  read into the buffer.
\<close>

record sectionRead =
  scElements :: "u8 list list"
  scStarts :: "u32 list"
  scFinal :: u32
  scBuffer :: "u8 list"

text \<open>
  \<^verbatim>\<open>readDataToStruct\<close> for elements of \<open>k\<close> bytes whose length field is read by \<open>getLength\<close>.
  The slice \<^verbatim>\<open>tempBuff[0:k*n+extra]\<close> panics when the buffer is shorter, and
  \<^verbatim>\<open>&tempBuff[0]\<close> panics on an empty buffer. Under the soft caps \<open>k*n+extra\<close> does not
  overflow.
\<close>

definition readDataToStruct ::
  "nat \<Rightarrow> (u8 list \<Rightarrow> u32) \<Rightarrow> nat \<Rightarrow> nat \<Rightarrow> u32 \<Rightarrow> nat \<Rightarrow> reader
   \<Rightarrow> (readError + sectionRead \<times> reader) outcome" where
  "readDataToStruct k getLength numToReadIntoSlice tempBuffLen expectedReadLen
       extraDataToReadSize rd =
     (if k * numToReadIntoSlice + extraDataToReadSize > tempBuffLen then Panics
      else
        case readBytes rd (k * numToReadIntoSlice + extraDataToReadSize) of
          (rd', None) \<Rightarrow> Returns (Inl SectionReadError)
        | (rd', Some buf) \<Rightarrow>
            if tempBuffLen = 0 then Panics
            else
              let elements = map (element k buf) [0..<numToReadIntoSlice] in
              case accumulate (map getLength elements) expectedReadLen 0 0 of
                Inl i \<Rightarrow> Returns (Inl (LengthExceeded i))
              | Inr (starts, final) \<Rightarrow>
                  if final \<noteq> expectedReadLen then Returns (Inl LengthNotReached)
                  else Returns (Inr (\<lparr>scElements = elements, scStarts = starts,
                                        scFinal = final, scBuffer = buf\<rparr>, rd')))"

section \<open>Reading a compiled catalog (Language.fromCompiledFile)\<close>

text \<open>\<^verbatim>\<open>storeHeader\<close>, 40 bytes without padding.\<close>

record storeHeader =
  shFileType :: "u8 list"
  shTranslationStringByteLength :: u8
  shNumRules :: u32
  shNumTranslations :: u32
  shSettingsSize :: u32
  shDataSize :: u32
  shHash :: "u8 list"

definition size_storeHeader :: nat where "size_storeHeader = 40"
definition size_storeTranslationRule16 :: nat where "size_storeTranslationRule16 = 4"
definition size_storeTranslationRule32 :: nat where "size_storeTranslationRule32 = 8"
definition size_storeTranslationRuleSlice :: nat where "size_storeTranslationRuleSlice = 1"

definition decHeader :: "u8 list \<Rightarrow> storeHeader" where
  "decHeader b =
     \<lparr>shFileType = take 3 b,
      shTranslationStringByteLength = b ! 3,
      shNumRules = of_nat (decLE (take 4 (drop 4 b))),
      shNumTranslations = of_nat (decLE (take 4 (drop 8 b))),
      shSettingsSize = of_nat (decLE (take 4 (drop 12 b))),
      shDataSize = of_nat (decLE (take 4 (drop 16 b))),
      shHash = take 20 (drop 20 b)\<rparr>"

definition encHeader :: "storeHeader \<Rightarrow> u8 list" where
  "encHeader h =
     shFileType h @ [shTranslationStringByteLength h] @ encLE 4 (unat (shNumRules h))
     @ encLE 4 (unat (shNumTranslations h)) @ encLE 4 (unat (shSettingsSize h))
     @ encLE 4 (unat (shDataSize h)) @ shHash h"

text \<open>\<^verbatim>\<open>storeHeader.getCompiledFileSize\<close>, a \<open>uint64\<close> that cannot overflow.\<close>

definition getCompiledFileSize :: "storeHeader \<Rightarrow> int" where
  "getCompiledFileSize h =
     int size_storeHeader
     + uint (shNumRules h) * uint (shTranslationStringByteLength h)
     + uint (shNumTranslations h) * int size_storeTranslationRuleSlice
     + uint (shSettingsSize h) + uint (shDataSize h)"

text \<open>\<^verbatim>\<open>storeHeader.checkSoftCaps\<close>; the data size is capped at 3.5 GiB.\<close>

definition checkSoftCaps :: "storeHeader \<Rightarrow> bool" where
  "checkSoftCaps h =
     (shNumRules h \<le> 1000000 \<and> shNumTranslations h \<le> 1000000
      \<and> shSettingsSize h \<le> 1048576 \<and> shDataSize h \<le> 3758096384)"

text \<open>
  The four settings, each a \<open>uint16\<close> length and that many bytes. The second one is the
  language identifier and must be accepted by \<^verbatim>\<open>language.Parse\<close> (a parameter); after the
  fourth the section must be used up.
\<close>

function readSettings ::
  "(string \<Rightarrow> bool) \<Rightarrow> u8 list \<Rightarrow> nat \<Rightarrow> nat \<Rightarrow> string list \<Rightarrow> readError + string list" where
  "readSettings languageParse settingsStr i byteLoc acc =
     (if i \<ge> 4 then Inr acc
      else if byteLoc + 2 > length settingsStr then Inl InvalidSettingsLength
      else
        let strLen = decLE (take 2 (drop byteLoc settingsStr));
            byteLoc1 = byteLoc + 2
        in if byteLoc1 + strLen > length settingsStr then Inl InvalidStringLength
           else
             let v = b2s (take strLen (drop byteLoc1 settingsStr));
                 byteLoc2 = byteLoc1 + strLen
             in if i = 1 \<and> \<not> languageParse v then Inl InvalidLanguageTag
                else if i = 3 \<and> byteLoc2 \<noteq> length settingsStr then Inl SettingsNotConsumed
                else readSettings languageParse settingsStr (i + 1) byteLoc2 (acc @ [v]))"
  by pat_completeness auto
termination
  by (relation "measure (\<lambda>(p, s, i, b, acc). 4 - i)") auto

declare readSettings.simps [simp del]

definition ruleOfElement :: "nat \<Rightarrow> u8 list \<Rightarrow> pluralRule" where
  "ruleOfElement lenBytes e = \<lparr>op = e ! lenBytes, i0 = e ! (lenBytes + 1)\<rparr>"

text \<open>\<^verbatim>\<open>ulen32m\<close> of every namespace, added up in \<open>uint32\<close>.\<close>

definition expectedNumTranslations :: "languageDict \<Rightarrow> u32" where
  "expectedNumTranslations d = sum_list (map (\<lambda>(key, n). of_nat (length (ids n))) (namespaces d))"

text \<open>
  The sections after the settings. \<open>tsbl\<close> is the size of a stored rule (4 or 8), whose
  length field has \<open>tsbl - 2\<close> or \<open>tsbl - 4\<close> bytes, that is 2 or 4.
\<close>

definition readCatalogBody ::
  "storeHeader \<Rightarrow> nat \<Rightarrow> string list \<Rightarrow> reader \<Rightarrow> (readError + Language) outcome" where
  "readCatalogBody header dictAddr settingsValues rd =
     (let tsbl = unat (shTranslationStringByteLength header);
          lenBytes = (if tsbl = size_storeTranslationRule16 then 2 else 4);
          numRules = unat (shNumRules header);
          numTranslations = unat (shNumTranslations header);
          tempBuffLen = max (tsbl * numRules) (size_storeTranslationRuleSlice * numTranslations)
      in case readDataToStruct tsbl (\<lambda>e. of_nat (decLE (take lenBytes e))) numRules tempBuffLen
                (shDataSize header) 0 rd of
           Panics \<Rightarrow> Panics
         | Returns (Inl e) \<Rightarrow> Returns (Inl e)
         | Returns (Inr (rs, rd1)) \<Rightarrow>
             (case readDataToStruct size_storeTranslationRuleSlice (\<lambda>e. of_nat (decLE e))
                     numTranslations tempBuffLen (shNumRules header) 0 rd1 of
                Panics \<Rightarrow> Panics
              | Returns (Inl e) \<Rightarrow> Returns (Inl e)
              | Returns (Inr (ts, rd2)) \<Rightarrow>
                  (case readBytes rd2 (unat (shDataSize header)) of
                     (rd3, None) \<Rightarrow> Returns (Inl FileEndedEarly)
                   | (rd3, Some stringsBytes) \<Rightarrow>
                       if int (rdNumBytesRead rd3) mod 4294967296
                            \<noteq> getCompiledFileSize header mod 4294967296
                       then Returns (Inl EndOfFileNotReached)
                       else
                         Returns (Inr
                           \<lparr>stringsData = stringsBytes,
                            rules =
                              map (\<lambda>(e, accum). \<lparr>startPos = accum, rule = ruleOfElement lenBytes e\<rparr>)
                                  (zip (scElements rs) (scStarts rs))
                              @ [\<lparr>startPos = scFinal rs, rule = \<lparr>op = cmpAll, i0 = 0\<rparr>\<rparr>],
                            translationSlices =
                              map (\<lambda>accum. \<lparr>startIndex = accum\<rparr>) (scStarts ts)
                              @ [\<lparr>startIndex = scFinal ts\<rparr>],
                            dict = dictAddr, fallback = None,
                            name = settingsValues ! 0,
                            fallbackName = settingsValues ! 2,
                            missingPluralRule = settingsValues ! 3,
                            languageIdentifier = settingsValues ! 1\<rparr>))))"

text \<open>
  \<^verbatim>\<open>func (l *Language) fromCompiledFile(r io.Reader, dict *languageDict) error\<close> on the
  stream \<open>bs\<close>; \<open>dictAddr\<close> is the pointer \<open>dict\<close> and \<open>d\<close> the dictionary it points to.
\<close>

definition fromCompiledFile ::
  "(string \<Rightarrow> bool) \<Rightarrow> nat \<Rightarrow> languageDict \<Rightarrow> u8 list \<Rightarrow> (readError + Language) outcome" where
  "fromCompiledFile languageParse dictAddr d bs =
     (case readBytes \<lparr>rdStream = bs, rdPos = 0, rdNumBytesRead = 0\<rparr> size_storeHeader of
        (rd, None) \<Rightarrow> Returns (Inl FileEndedEarly)
      | (rd, Some hb) \<Rightarrow>
          let header = decHeader hb in
          if shFileType header \<noteq> s2b ''GTR'' then Returns (Inl InvalidFileHeader)
          else if shTranslationStringByteLength header \<noteq> 4
                  \<and> shTranslationStringByteLength header \<noteq> 8
          then Returns (Inl InvalidTranslationStringSize)
          else if \<not> checkSoftCaps header then Returns (Inl SoftCapViolated)
          else if \<not> bytesEqual (Some (shHash header)) (hash d)
          then Returns (Inl DictionaryDoesNotMatch)
          else if expectedNumTranslations d \<noteq> shNumTranslations header
          then Returns (Inl NumTranslationsMismatch)
          else
            case readBytes rd (unat (shSettingsSize header)) of
              (rd1, None) \<Rightarrow> Returns (Inl FileEndedEarly)
            | (rd1, Some settingsStr) \<Rightarrow>
                (case readSettings languageParse settingsStr 0 0 [] of
                   Inl e \<Rightarrow> Returns (Inl e)
                 | Inr settingsValues \<Rightarrow> readCatalogBody header dictAddr settingsValues rd1))"

section \<open>The text form: assembling the language (Language.fromTextFile, second half)\<close>

text \<open>
  What the processing of one namespace returns: per translation the compiled strings
  and the plural rules (\<^verbatim>\<open>retStrings\<close> and \<^verbatim>\<open>retPluralRules\<close> of
  \<^verbatim>\<open>addTranslationIDFromTextFile\<close>, which appends to both together).
\<close>

record namespaceReturn =
  nrStringsData :: "u8 list list list"
  nrPluralRules :: "pluralRule list list"

text \<open>
  ``Grow the language slices to their needed sizes'': the totals of string bytes,
  translations and rules. \<^verbatim>\<open>nsRetData.stringsData[translationIndex]\<close> is read for every
  translation of \<^verbatim>\<open>pluralRules\<close>.
\<close>

definition totalRulesOf :: "namespaceReturn list \<Rightarrow> nat" where
  "totalRulesOf nsData = sum_list (map (\<lambda>ns. sum_list (map length (nrPluralRules ns))) nsData)"

definition totalTranslationsOf :: "namespaceReturn list \<Rightarrow> nat" where
  "totalTranslationsOf nsData = sum_list (map (\<lambda>ns. length (nrPluralRules ns)) nsData)"

definition totalStrLenOf :: "namespaceReturn list \<Rightarrow> nat" where
  "totalStrLenOf nsData =
     sum_list (map (\<lambda>ns. sum_list (map (\<lambda>strs. sum_list (map length strs))
                                       (take (length (nrPluralRules ns)) (nrStringsData ns))))
                   nsData)"

text \<open>The state of the loops that compile the data into the language.\<close>

record assembly =
  asStringsData :: "u8 list"
  asRules :: "translationRule list"
  asTranslations :: "translationRuleSlice list"
  curStrIndex :: u32
  curTranslationIndex :: u32
  curRuleIndex :: u32

text \<open>
  \<^verbatim>\<open>copy(dst[lo:hi], src)\<close>: the slice expression panics unless \<open>lo \<le> hi \<le> len(dst)\<close>, and
  \<^verbatim>\<open>copy\<close> copies as many bytes as the shorter of the two holds.
\<close>

definition copyInto :: "u8 list \<Rightarrow> nat \<Rightarrow> nat \<Rightarrow> u8 list \<Rightarrow> u8 list outcome" where
  "copyInto dst lo hi src =
     (if lo \<le> hi \<and> hi \<le> length dst then
        let n = min (hi - lo) (length src) in
        Returns (take lo dst @ take n src @ drop (lo + n) dst)
      else Panics)"

fun storeRules ::
  "u8 list list list \<Rightarrow> nat \<Rightarrow> nat \<Rightarrow> pluralRule list \<Rightarrow> assembly \<Rightarrow> assembly outcome" where
  "storeRules sd translationIndex ruleIndex [] a = Returns a"
| "storeRules sd translationIndex ruleIndex (r # rest) a =
     (if translationIndex \<ge> length sd then Panics
      else if ruleIndex \<ge> length (sd ! translationIndex) then Panics
      else
        let newStr = sd ! translationIndex ! ruleIndex;
            newStrLen = (of_nat (length newStr) :: u32)
        in case copyInto (asStringsData a) (unat (curStrIndex a))
                  (unat (curStrIndex a + newStrLen)) newStr of
             Panics \<Rightarrow> Panics
           | Returns data \<Rightarrow>
               let cur = curStrIndex a + newStrLen;
                   prev = unat (curRuleIndex a - 1);
                   this = unat (curRuleIndex a)
               in if prev \<ge> length (asRules a) \<or> this \<ge> length (asRules a) then Panics
                  else
                    let rules1 = (asRules a)[prev := (asRules a ! prev)\<lparr>rule := r\<rparr>];
                        rules2 = rules1[this := (rules1 ! this)\<lparr>startPos := cur\<rparr>]
                    in storeRules sd translationIndex (ruleIndex + 1) rest
                         (a\<lparr>asStringsData := data, asRules := rules2, curStrIndex := cur,
                            curRuleIndex := curRuleIndex a + 1\<rparr>))"

fun storeTranslations ::
  "u8 list list list \<Rightarrow> nat \<Rightarrow> pluralRule list list \<Rightarrow> assembly \<Rightarrow> assembly outcome" where
  "storeTranslations sd translationIndex [] a = Returns a"
| "storeTranslations sd translationIndex (rs # rest) a =
     (case storeRules sd translationIndex 0 rs a of
        Panics \<Rightarrow> Panics
      | Returns a1 \<Rightarrow>
          let t = unat (curTranslationIndex a1) in
          if t \<ge> length (asTranslations a1) then Panics
          else
            storeTranslations sd (translationIndex + 1) rest
              (a1\<lparr>asTranslations := (asTranslations a1)[t := \<lparr>startIndex = curRuleIndex a1 - 1\<rparr>],
                  curTranslationIndex := curTranslationIndex a1 + 1\<rparr>))"

fun storeNamespaces :: "namespaceReturn list \<Rightarrow> assembly \<Rightarrow> assembly outcome" where
  "storeNamespaces [] a = Returns a"
| "storeNamespaces (nsRetData # rest) a =
     (case storeTranslations (nrStringsData nsRetData) 0 (nrPluralRules nsRetData) a of
        Panics \<Rightarrow> Panics
      | Returns a1 \<Rightarrow> storeNamespaces rest a1)"

text \<open>\<^verbatim>\<open>Language.getSettingsAsString\<close>: four strings, each after its \<open>uint16\<close> length.\<close>

definition getSettingsAsString :: "Language \<Rightarrow> u8 list" where
  "getSettingsAsString l =
     concat (map (\<lambda>s. encLE 2 (length s mod 65536) @ s2b s)
                 [name l, languageIdentifier l, fallbackName l, missingPluralRule l])"

datatype textError =
    EarlierErrors
  | Uint32OverflowOccurred
  | SoftCapsExceeded
  | FinalFileTooLarge

text \<open>
  The loop ``Process the found plural rules'' at the end of
  \<^verbatim>\<open>addTranslationIDFromTextFile\<close>: for every rule found among the properties
  (\<^verbatim>\<open>myRules\<close>, the rule beside the text it was declared with) the placeholders of the
  text are replaced by their binary form, a string that is too long is replaced by the
  empty one, and the string and the rule are appended to the two results. The
  replacement (a regular expression with a callback) is a parameter; the errors it
  records are the business of \<open>earlier\<close> below.
\<close>

record translationReturn =
  retStrings :: "u8 list list"
  retPluralRules :: "pluralRule list"

fun saveRules ::
  "(nat \<Rightarrow> string \<Rightarrow> u8 list) \<Rightarrow> bool \<Rightarrow> nat \<Rightarrow> (string \<times> pluralRule) list
   \<Rightarrow> translationReturn \<Rightarrow> translationReturn" where
  "saveRules replaceVariables allowBigStrings ruleNum [] ret = ret"
| "saveRules replaceVariables allowBigStrings ruleNum ((val, r) # rest) ret =
     (let replaced = replaceVariables ruleNum val;
          finalStr = (if (\<not> allowBigStrings \<and> int (length replaced) > 65535)
                         \<or> int (length replaced) > MaxUint32
                      then [] else replaced)
      in saveRules replaceVariables allowBigStrings (ruleNum + 1) rest
           (ret\<lparr>retStrings := retStrings ret @ [finalStr],
                retPluralRules := retPluralRules ret @ [r]\<rparr>))"

text \<open>
  The data of a namespace as \<^verbatim>\<open>Language.fromTextFile\<close> collects it: two slices with an
  entry for each translation ID of the namespace in the dictionary, which hold what
  \<^verbatim>\<open>addTranslationIDFromTextFile\<close> returned for it. \<open>myRules\<close> gives the rules found for
  each translation ID, in the order of the dictionary; a translation that is missing
  from the file, or has an invalid type, leaves nil in both slices, as a translation
  without rules does.
\<close>

definition namespaceData ::
  "(nat \<Rightarrow> nat \<Rightarrow> string \<Rightarrow> u8 list) \<Rightarrow> bool \<Rightarrow> (string \<times> pluralRule) list list
   \<Rightarrow> namespaceReturn" where
  "namespaceData replaceVariables allowBigStrings myRules =
     (let returned = map (\<lambda>(translationIDIndex, rs).
                            saveRules (replaceVariables translationIDIndex) allowBigStrings 0 rs
                              \<lparr>retStrings = [], retPluralRules = []\<rparr>)
                         (enumerate 0 myRules)
      in \<lparr>nrStringsData = map retStrings returned, nrPluralRules = map retPluralRules returned\<rparr>)"

text \<open>The data of all namespaces, in the order of the dictionary.\<close>

definition namespaceReturnData ::
  "(nat \<Rightarrow> nat \<Rightarrow> nat \<Rightarrow> string \<Rightarrow> u8 list) \<Rightarrow> bool
   \<Rightarrow> (string \<times> pluralRule) list list list \<Rightarrow> namespaceReturn list" where
  "namespaceReturnData replaceVariables allowBigStrings allRules =
     map (\<lambda>(namespaceIndex, myRules).
            namespaceData (replaceVariables namespaceIndex) allowBigStrings myRules)
         (enumerate 0 allRules)"

text \<open>
  The shape of such data: the two slices of a namespace have the same length, and
  every translation has as many strings as rules.
\<close>

definition wellShaped :: "namespaceReturn list \<Rightarrow> bool" where
  "wellShaped nsData =
     list_all (\<lambda>ns. list_all2 (\<lambda>strs rs. length strs = length rs)
                               (nrStringsData ns) (nrPluralRules ns)) nsData"

text \<open>
  What the loops that fill the language keep true between two rules, and between two
  translations: the rule before \<^verbatim>\<open>curRuleIndex\<close> starts where the strings end so far, and
  the translation before \<^verbatim>\<open>curTranslationIndex\<close> starts at the rule before
  \<^verbatim>\<open>curRuleIndex\<close>.
\<close>

definition ruleInv :: "assembly \<Rightarrow> bool" where
  "ruleInv a = (unat (curRuleIndex a - 1) < length (asRules a)
      \<and> startPos (asRules a ! unat (curRuleIndex a - 1)) = curStrIndex a)"

definition sliceInv :: "assembly \<Rightarrow> bool" where
  "sliceInv a = (unat (curTranslationIndex a - 1) < length (asTranslations a)
      \<and> startIndex (asTranslations a ! unat (curTranslationIndex a - 1)) = curRuleIndex a - 1)"

text \<open>
  The second half of \<^verbatim>\<open>Language.fromTextFile\<close>, from the results of the namespaces on:
  the slices are made, filled, and the sizes are checked. \<open>l0\<close> is the language as
  created from the settings. \<open>earlier\<close> says whether an error has been recorded before
  the end (by the settings, the dictionary, a translation, or the search for embedding
  loops), in which case no language is returned.
\<close>

definition assembleLanguage ::
  "Language \<Rightarrow> namespaceReturn list \<Rightarrow> bool \<Rightarrow> (textError + Language) outcome" where
  "assembleLanguage l0 nsData earlier =
     (if list_ex (\<lambda>ns. length (nrStringsData ns) < length (nrPluralRules ns)) nsData then Panics
      else
        case storeNamespaces nsData
               \<lparr>asStringsData = replicate (totalStrLenOf nsData) 0,
                asRules = replicate (totalRulesOf nsData + 1)
                            \<lparr>startPos = 0, rule = \<lparr>op = 0, i0 = 0\<rparr>\<rparr>,
                asTranslations = replicate (totalTranslationsOf nsData + 1) \<lparr>startIndex = 0\<rparr>,
                curStrIndex = 0, curTranslationIndex = 1, curRuleIndex = 1\<rparr> of
          Panics \<Rightarrow> Panics
        | Returns a \<Rightarrow>
            let l = l0\<lparr>stringsData := asStringsData a, rules := asRules a,
                       translationSlices := asTranslations a\<rparr>;
                tsbl = (if list_ex (\<lambda>i. startPos (rules l ! (i + 1)) - startPos (rules l ! i) > 65535)
                                  [0..<length (rules l) - 1]
                        then 8 else 4);
                settingsStringLen = length (getSettingsAsString l);
                header = \<lparr>shFileType = [0, 0, 0], shTranslationStringByteLength = tsbl,
                          shNumRules = of_nat (length (rules l)) - 1,
                          shNumTranslations = NumTranslations l,
                          shSettingsSize = of_nat settingsStringLen,
                          shDataSize = of_nat (length (stringsData l)),
                          shHash = replicate 20 0\<rparr>
            in if earlier then Returns (Inl EarlierErrors)
               else if int (length (rules l)) > MaxUint32 \<or> int (length (translationSlices l)) > MaxUint32
                       \<or> int settingsStringLen > MaxUint32 \<or> int (length (stringsData l)) > MaxUint32
               then Returns (Inl Uint32OverflowOccurred)
               else if \<not> checkSoftCaps header then Returns (Inl SoftCapsExceeded)
               else if getCompiledFileSize header > MaxUint32 then Returns (Inl FinalFileTooLarge)
               else Returns (Inr l))"

section \<open>Further data for concrete evaluations\<close>

text \<open>
  The language of the fallback chain in which \<^verbatim>\<open>getReal\<close> finds rules for an index: the
  \<^verbatim>\<open>curLang\<close> whose rules are searched.
\<close>

definition searchedLanguage :: "store \<Rightarrow> nat \<Rightarrow> u32 \<Rightarrow> nat option" where
  "searchedLanguage st l index =
     (case walkFallback st index (Some l) None of
        Some (WalkFound c sliceIndex sliceLength) \<Rightarrow> Some c
      | _ \<Rightarrow> None)"

text \<open>
  The two languages with the fallback of the second one set to the first: the second
  language has no rules of its own, so every retrieval on it uses the rules of the first.
\<close>

definition chainedLanguages :: store where
  "chainedLanguages =
     \<lparr>langs = (\<lambda>a. if a = 0 then demoLanguage else frenchLanguage\<lparr>fallback := Some 0\<rparr>),
      dicts = (\<lambda>a. demoDict)\<rparr>"

text \<open>The index that the dictionary of a language gives a namespace and a translation ID.\<close>

definition namedIndex :: "store \<Rightarrow> nat \<Rightarrow> string \<Rightarrow> string \<Rightarrow> u32 option" where
  "namedIndex st l ns tid =
     (case map_of (namespaces (dicts st (dict (langs st l)))) ns of
        None \<Rightarrow> None
      | Some n \<Rightarrow> map_of (ids n) tid)"

text \<open>
  The five conditions for an argument that may be nil: the first speaks about the language
  alone, the other four about the language \<open>other\<close>, which a nil pointer is not.
\<close>

definition claimedRejection :: "store \<Rightarrow> nat \<Rightarrow> nat option \<Rightarrow> bool" where
  "claimedRejection st l other =
     (case other of
        None \<Rightarrow> fallback (langs st l) \<noteq> None
      | Some f \<Rightarrow> fallbackRejected st l f)"

section \<open>The state of an expansion after some placeholders\<close>




section \<open>A compiled catalog for concrete evaluations\<close>

text \<open>
  A dictionary with one translation \<open>NS.Hi\<close> and the hash of twenty zero bytes, and the
  compiled file of a catalog for it: name ``E'', identifier ``en'', no fallback name,
  missing plural rule ``-'', one rule \<open>^\<close> with the text ``Hi''. The file has
  \<open>40 + 12 + 4 + 1 + 2 = 59\<close> bytes.
\<close>

definition oneEntryDict :: languageDict where
  "oneEntryDict =
     \<lparr>namespaces = [(''NS'', \<lparr>nsName = ''NS'', nsIndex = 0, ids = [(''Hi'', 0)], idsInOrder = []\<rparr>)],
      namespacesInOrder = [''NS''], hash = Some (replicate 20 0), hasVarsLoaded = False\<rparr>"

definition catalogHeader :: storeHeader where
  "catalogHeader =
     \<lparr>shFileType = s2b ''GTR'', shTranslationStringByteLength = 4, shNumRules = 1,
      shNumTranslations = 1, shSettingsSize = 12, shDataSize = 2, shHash = replicate 20 0\<rparr>"

definition catalogFile :: "u8 list" where
  "catalogFile =
     encHeader catalogHeader
     @ [1, 0] @ s2b ''E'' @ [2, 0] @ s2b ''en'' @ [0, 0] @ [1, 0] @ s2b ''-''
     @ [2, 0, 0, 0]
     @ [1]
     @ s2b ''Hi''"

definition acceptsEn :: "string \<Rightarrow> bool" where
  "acceptsEn s = (s = ''en'')"

text \<open>
  A text document with one namespace and one translation, \<open>Hi\<close> with the only rule
  \<open>^\<close>, whose text has no placeholder to replace.
\<close>

definition hiRules :: "(string \<times> pluralRule) list list list" where
  "hiRules = [[[(''Hi'', \<lparr>op = 0, i0 = 0\<rparr>)]]]"

definition keepText :: "nat \<Rightarrow> nat \<Rightarrow> nat \<Rightarrow> string \<Rightarrow> u8 list" where
  "keepText namespaceIndex translationIDIndex ruleNum val = s2b val"


section \<open>Plural rules: evaluation and parsing\<close>

lemmas cmpOp_defs =
  cmpAll_def cmpEquals_def cmpLess_def cmpLessEqual_def cmpGreater_def cmpGreaterEqual_def
  cmpBetween_def cmpBetweenExtraBit_def

lemma getOp_less_8: "unat (getOp pr) < 8"
proof -
  have "getOp pr \<le> 7"
    unfolding getOp_def by (rule word_and_le1)
  then have "unat (getOp pr) \<le> unat (7 :: u8)"
    by (simp add: word_le_nat_alt)
  then show ?thesis by simp
qed

lemma getDelta_less_32: "unat (getDelta pr) < 32"
proof -
  have "unat (drop_bit 3 (op pr)) = unat (op pr) div 2 ^ 3"
    by (simp add: drop_bit_eq_div unat_div)
  moreover have "unat (op pr) < 256"
    using unsigned_less [of "op pr", where ?'a = nat] by simp
  ultimately show ?thesis
    by (simp add: getDelta_def)
qed

lemma cmp_exact_no_overflow:
  assumes "upperLimit pr \<le> 255"
  shows "cmp pr c = cmp_exact pr (unat c)"
proof -
  have d: "unat (getDelta pr) < 32" by (rule getDelta_less_32)
  have k: "unat (getOp pr) < 8" by (rule getOp_less_8)
  have sum: "unat (i0 pr + getDelta pr) = unat (i0 pr) + unat (getDelta pr)"
    using assms by (simp add: upperLimit_def unat_word_ariths split: if_splits)
  have sum32: "getOp pr = 7 \<Longrightarrow>
      unat (i0 pr + getDelta pr + 32) = unat (i0 pr) + unat (getDelta pr) + 32"
    using assms by (simp add: upperLimit_def unat_word_ariths cmpOp_defs)
  have cases: "unat (getOp pr) \<in> {0, 1, 2, 3, 4, 5, 6, 7}"
    using k by auto
  have eqs: "(getOp pr = 0) = (unat (getOp pr) = 0)" "(getOp pr = 1) = (unat (getOp pr) = 1)"
    "(getOp pr = 2) = (unat (getOp pr) = 2)" "(getOp pr = 3) = (unat (getOp pr) = 3)"
    "(getOp pr = 4) = (unat (getOp pr) = 4)" "(getOp pr = 5) = (unat (getOp pr) = 5)"
    "(getOp pr = 6) = (unat (getOp pr) = 6)" "(getOp pr = 7) = (unat (getOp pr) = 7)"
    by (simp_all add: word_unat_eq_iff)
  show ?thesis
    using cases sum sum32
    by (auto simp: cmp_def cmp_exact_def cmpOp_defs eqs Let_def word_le_nat_alt
        word_less_nat_alt word_unat_eq_iff)
qed

text \<open>
  C3. For every packed rule and every count in \<open>[0,255]\<close> the evaluation should follow the
  exact table. The code adds \<open>i0\<close> and the delta in \<open>uint8\<close>: for the rule
  \<open>Between, delta = 10, i0 = 250\<close> (the bytes \<open>0x56, 0xFA\<close>, what \<open>~250-260\<close> compiles
  to) and the count 252 the sum wraps to 4 and the code answers false, where the exact
  table answers true.
\<close>

theorem cmp_between_wraps:
  "getOp \<lparr>op = 0x56, i0 = 250\<rparr> = cmpBetween \<and> getDelta \<lparr>op = 0x56, i0 = 250\<rparr> = 10
   \<and> cmp \<lparr>op = 0x56, i0 = 250\<rparr> 252 = False
   \<and> cmp_exact \<lparr>op = 0x56, i0 = 250\<rparr> 252 = True"
  by code_simp

text \<open>
  C4. Parsing \<open>~ a-b\<close> should succeed only when both operands are in \<open>0..255\<close>. The first
  number is checked against 255, the second is not: \<open>~250-260\<close> is accepted and packed
  as \<open>Between\<close> with delta 10 and \<open>i0 = 250\<close>. The boundary cases of the claim hold:
  \<open>~0-63\<close> packs to \<open>BetweenHigh\<close> (operator 7) with delta 31, and \<open>~0-64\<close> is rejected.
\<close>

theorem createPluralRule_second_operand_unchecked:
  "createPluralRule ''~250-260'' = Inr \<lparr>op = 0x56, i0 = 250\<rparr>
   \<and> createPluralRule ''~0-63'' = Inr \<lparr>op = 0xFF, i0 = 0\<rparr>
   \<and> getOp \<lparr>op = 0xFF, i0 = 0\<rparr> = cmpBetweenExtraBit \<and> getDelta \<lparr>op = 0xFF, i0 = 0\<rparr> = 31
   \<and> createPluralRule ''~0-64'' = Inl BadSecondNumber
   \<and> createPluralRule ''=256'' = Inl BadFirstNumber"
  by code_simp

section \<open>Retrieval: rule selection, errors and missing arguments\<close>


lemma firstIndex_Some_less: "firstIndex P xs = Some i \<Longrightarrow> i < length xs \<and> P (xs ! i)"
proof (induction xs arbitrary: i)
  case Nil
  then show ?case by simp
next
  case (Cons x xs)
  then show ?case by (auto split: if_splits)
qed

lemma firstIndex_Some_first: "firstIndex P xs = Some i \<Longrightarrow> j < i \<Longrightarrow> \<not> P (xs ! j)"
proof (induction xs arbitrary: i j)
  case Nil
  then show ?case by simp
next
  case (Cons x xs)
  then show ?case by (cases j) (auto split: if_splits)
qed

lemma firstIndex_None: "firstIndex P xs = None \<longleftrightarrow> (\<forall>x \<in> set xs. \<not> P x)"
  by (induction xs) auto




lemma embeddedFailure_blank:
  "embeddedFailure d n t k err = Returns (s, Some err') \<Longrightarrow>
     s = '''' \<and> (\<exists>v. err' = InsertedVariable n v)"
  by (auto simp: embeddedFailure_def split: outcome.splits)

lemma processTranslation_error_blank:
  "processTranslation st fm l tr pc t e args i n out = Some (Returns (s, Some err))
   \<Longrightarrow> s = '''' \<and> (\<exists>k v. err = InsertedVariable k v)"
proof (induction st fm l tr pc t e args i n out
    rule: getReal_processTranslation.induct(2) [where P = "\<lambda>_ _ _ _ _ _ _. True"])
  case (1 st fm l index pluralCount embeddedCount args)
  then show ?case by simp
next
  case (2 st fm l translation pluralCount translationIDIndex embeddedCount args
      translationIndex insertedVarNum newString)
  show ?case
    using "2.prems" "2.IH"
    apply (subst (asm) processTranslation.simps)
    apply (simp split: if_splits option.splits outcome.splits sum.splits prod.splits
        action.splits add: Let_def)
    apply (auto dest: embeddedFailure_blank)
    done
qed

lemma matchingRule_nonplural: "\<not> isPluralFunc pc \<Longrightarrow> matchingRule rs si pc \<noteq> - 1"
proof -
  have "0 \<le> int (unat si)" by simp
  then have "int (unat si) \<noteq> - 1" "\<And>i. int (unat si) + int i \<noteq> - 1"
    by linarith+
  then show "\<not> isPluralFunc pc \<Longrightarrow> matchingRule rs si pc \<noteq> - 1"
    unfolding matchingRule_def by (simp split: option.splits)
qed

lemma selectTranslation_Early_error:
  assumes "selectTranslation st l index pc e = Some (Early (Returns (s, Some err)))"
  shows "(err \<noteq> NoPluralRuleMatches \<and> s = '''' \<and> (\<forall>k v. err \<noteq> InsertedVariable k v))
       \<or> (err = NoPluralRuleMatches \<and> isPluralFunc pc
           \<and> (\<exists>c. searchedLanguage st l index = Some c \<and> s = missingPluralRule (langs st c)))"
  using assms matchingRule_nonplural
  by (auto simp: selectTranslation_def searchedLanguage_def Let_def
      split: if_splits option.splits walk.splits)

lemma getReal_error_string:
  assumes "getReal st fm l index pc e args = Some (Returns (s, Some err))"
  shows "(err \<noteq> NoPluralRuleMatches \<and> s = '''')
       \<or> (err = NoPluralRuleMatches \<and> isPluralFunc pc
           \<and> (\<exists>c. searchedLanguage st l index = Some c \<and> s = missingPluralRule (langs st c)))"
proof (cases "selectTranslation st l index pc e")
  case None
  with assms show ?thesis by (simp add: getReal.simps)
next
  case (Some sel)
  show ?thesis
  proof (cases sel)
    case (Early r)
    with Some assms have "selectTranslation st l index pc e = Some (Early (Returns (s, Some err)))"
      by (simp add: getReal.simps)
    from selectTranslation_Early_error [OF this] show ?thesis by blast
  next
    case (Selected bs)
    with Some assms have "processTranslation st fm l bs pc index e args 0 1 [] = Some (Returns (s, Some err))"
      by (simp add: getReal.simps)
    from processTranslation_error_blank [OF this] show ?thesis by auto
  qed
qed

lemma matchingRule_plural:
  "isPluralFunc pluralCount \<Longrightarrow>
     matchingRule rs sliceIndex pluralCount =
       (case firstIndex (\<lambda>r. cmp (rule r) (ucast pluralCount)) rs of
          None \<Rightarrow> - 1 | Some i \<Rightarrow> int (unat sliceIndex) + int i)"
  by (simp add: matchingRule_def)

lemma small_isPlural:
  assumes "unat (n :: u64) < 2 ^ 63"
  shows "isPluralFunc n"
proof -
  have u: "uint n < 2 ^ 63"
    using assms by (simp add: unat_eq_nat_uint nat_less_iff del: nat_uint_eq)
  have "sint n = signed_take_bit 63 (uint n)"
    by (simp add: sint_uint)
  also have "\<dots> = uint n"
  proof (rule signed_take_bit_int_eq_self)
    have "0 \<le> uint n" by simp
    moreover have "- (2 ^ 63) \<le> (0 :: int)" by simp
    ultimately show "- (2 ^ 63) \<le> uint n" by (rule order_trans [rotated])
    show "uint n < 2 ^ 63" by (rule u)
  qed
  finally show ?thesis
    by (simp add: isPluralFunc_def)
qed

lemma small_ucast:
  assumes "unat (n :: u64) \<le> 255"
  shows "(ucast n :: u8) = of_nat (min (unat n) 255)"
  using assms by simp

lemma matchingRule_small_count:
  assumes "unat (n :: u64) \<le> 255"
  shows "matchingRule rs sliceIndex n =
       (case firstIndex (\<lambda>r. cmp (rule r) (of_nat (min (unat n) 255))) rs of
          None \<Rightarrow> - 1 | Some i \<Rightarrow> int (unat sliceIndex) + int i)"
proof -
  have "isPluralFunc n"
    using assms by (intro small_isPlural) simp
  then show ?thesis
    using small_ucast [OF assms] by (simp add: matchingRule_def)
qed

text \<open>
  C1. A plural retrieval should select the first rule that is true for \<open>min(n, 255)\<close>.
  The code passes \<^verbatim>\<open>uint8(pluralCount)\<close>, the low eight bits of the count, to the rules. For
  \<open>n \<le> 255\<close> the two agree (\<open>matchingRule_small_count\<close>). For \<open>n = 256\<close> and the rules
  \<open>=0\<close>, \<open>^\<close> the code evaluates \<open>=0\<close> at 0 and selects it (``zero''), although \<open>=0\<close> is
  false and \<open>^\<close> is the first rule true at \<open>min(256, 255) = 255\<close>.
\<close>

theorem plural_count_truncated:
  "GetPlural demoStore demoFormatting 0 0 256 [] = Some (Returns (''zero'', None))
   \<and> matchingRule (take 2 demoRules) 0 256 = 0
   \<and> cmp (rule (demoRules ! 0)) (ucast (256 :: u64))
   \<and> \<not> cmp (rule (demoRules ! 0)) (of_nat (min 256 255))
   \<and> cmp (rule (demoRules ! 1)) (of_nat (min 256 255))"
  by code_simp

lemma not_plural_minus_one: "\<not> isPluralFunc (- 1)"
  by (simp add: isPluralFunc_def)

lemma getRealNamed_error_string:
  assumes "getRealNamed st fm l ns tid pc args = Some (Returns (s, Some err))"
  shows "(err \<noteq> NoPluralRuleMatches \<and> s = '''')
       \<or> (err = NoPluralRuleMatches \<and> isPluralFunc pc
           \<and> (\<exists>index c. namedIndex st l ns tid = Some index
                 \<and> searchedLanguage st l index = Some c \<and> s = missingPluralRule (langs st c)))"
  using assms
  by (auto simp: getRealNamed_def namedIndex_def split: option.splits dest: getReal_error_string)

text \<open>
  C2 (as amended). When the underlying retrieval returns an error, \<^verbatim>\<open>MustGet\<close> and
  \<^verbatim>\<open>MustGetNamed\<close> return the empty string; \<^verbatim>\<open>MustGetPlural\<close> and \<^verbatim>\<open>MustGetPluralNamed\<close>
  return the empty string for every error but ``no plural rule matches'', for which they
  return the \<^verbatim>\<open>missingPluralRule\<close> text of the language of the fallback chain in which
  the rules were found and searched (\<^const>\<open>searchedLanguage\<close>), not that of the language
  the call was made on.
\<close>

theorem Must_blank_unless_no_plural_rule:
  "(Get st fm l index args = Some (Returns (s, Some err))
      \<longrightarrow> MustGet st fm l index args = Some (Returns ''''))
   \<and> (GetNamed st fm l ns tid args = Some (Returns (s, Some err))
      \<longrightarrow> MustGetNamed st fm l ns tid args = Some (Returns ''''))
   \<and> (GetPlural st fm l index n args = Some (Returns (s, Some err))
      \<longrightarrow> (if err = NoPluralRuleMatches
           then MustGetPlural st fm l index n args = Some (Returns s)
                \<and> (\<exists>c. searchedLanguage st l index = Some c
                        \<and> s = missingPluralRule (langs st c))
           else MustGetPlural st fm l index n args = Some (Returns '''')))
   \<and> (GetPluralNamed st fm l ns tid n args = Some (Returns (s, Some err))
      \<longrightarrow> (if err = NoPluralRuleMatches
           then MustGetPluralNamed st fm l ns tid n args = Some (Returns s)
                \<and> (\<exists>index c. namedIndex st l ns tid = Some index
                        \<and> searchedLanguage st l index = Some c
                        \<and> s = missingPluralRule (langs st c))
           else MustGetPluralNamed st fm l ns tid n args = Some (Returns '''')))"
proof (intro conjI impI)
  assume a: "Get st fm l index args = Some (Returns (s, Some err))"
  then have "s = ''''"
    using getReal_error_string [of st fm l index "- 1" 0 args s err] not_plural_minus_one
    by (auto simp: Get_def)
  with a show "MustGet st fm l index args = Some (Returns '''')"
    by (simp add: Get_def MustGet_def twoToOne_def)
next
  assume a: "GetNamed st fm l ns tid args = Some (Returns (s, Some err))"
  then have "s = ''''"
    using getRealNamed_error_string [of st fm l ns tid "- 1" args s err] not_plural_minus_one
    by (auto simp: GetNamed_def)
  with a show "MustGetNamed st fm l ns tid args = Some (Returns '''')"
    by (simp add: GetNamed_def MustGetNamed_def twoToOne_def)
next
  assume a: "GetPlural st fm l index n args = Some (Returns (s, Some err))"
  then show "if err = NoPluralRuleMatches
           then MustGetPlural st fm l index n args = Some (Returns s)
                \<and> (\<exists>c. searchedLanguage st l index = Some c
                        \<and> s = missingPluralRule (langs st c))
           else MustGetPlural st fm l index n args = Some (Returns '''')"
    using getReal_error_string [of st fm l index n 0 args s err]
    by (auto simp: GetPlural_def MustGetPlural_def twoToOne_def)
next
  assume a: "GetPluralNamed st fm l ns tid n args = Some (Returns (s, Some err))"
  then show "if err = NoPluralRuleMatches
           then MustGetPluralNamed st fm l ns tid n args = Some (Returns s)
                \<and> (\<exists>index c. namedIndex st l ns tid = Some index
                        \<and> searchedLanguage st l index = Some c
                        \<and> s = missingPluralRule (langs st c))
           else MustGetPluralNamed st fm l ns tid n args = Some (Returns '''')"
    using getRealNamed_error_string [of st fm l ns tid n args s err]
    by (auto simp: GetPluralNamed_def MustGetPluralNamed_def twoToOne_def)
qed

text \<open>
  C2 as stated fails: with the single rule \<open>=1\<close> and the count 5 no rule matches, the
  retrieval returns an error and \<^verbatim>\<open>MustGetPlural\<close> returns the text ``no rule''.
\<close>

theorem MustGetPlural_returns_missingPluralRule:
  "GetPlural demoStore demoFormatting 0 1 5 [] = Some (Returns (''no rule'', Some NoPluralRuleMatches))
   \<and> MustGetPlural demoStore demoFormatting 0 1 5 [] = Some (Returns ''no rule'')
   \<and> MustGetPlural demoStore demoFormatting 0 1 5 [] \<noteq> Some (Returns '''')
   \<and> GetPluralNamed demoStore demoFormatting 0 ''NS'' ''One'' 5 []
        = Some (Returns (''no rule'', Some NoPluralRuleMatches))
   \<and> MustGetPluralNamed demoStore demoFormatting 0 ''NS'' ''One'' 5 [] \<noteq> Some (Returns '''')"
  by code_simp

theorem Must_blank_unless_no_plural_rule_witness:
  "Get demoStore demoFormatting 0 3 [] = Some (Returns ('''', Some (InvalidIndexLocation 3)))
   \<and> MustGet demoStore demoFormatting 0 3 [] = Some (Returns '''')
   \<and> GetNamed demoStore demoFormatting 0 ''NS'' ''Nope'' [] = Some (Returns ('''', Some InvalidTranslationID))
   \<and> MustGetNamed demoStore demoFormatting 0 ''NS'' ''Nope'' [] = Some (Returns '''')
   \<and> GetPlural chainedLanguages demoFormatting 2 1 5 []
        = Some (Returns (''no rule'', Some NoPluralRuleMatches))
   \<and> searchedLanguage chainedLanguages 2 1 = Some 0
   \<and> missingPluralRule (langs chainedLanguages 0) = ''no rule''
   \<and> missingPluralRule (langs chainedLanguages 2) = ''pas de regle''
   \<and> MustGetPlural chainedLanguages demoFormatting 2 1 5 [] = Some (Returns ''no rule'')
   \<and> GetPluralNamed demoStore demoFormatting 0 ''XX'' ''One'' 5 [] = Some (Returns ('''', Some InvalidNamespace))
   \<and> MustGetPluralNamed demoStore demoFormatting 0 ''XX'' ''One'' 5 [] = Some (Returns '''')
   \<and> GetPluralNamed chainedLanguages demoFormatting 2 ''NS'' ''One'' 5 []
        = Some (Returns (''no rule'', Some NoPluralRuleMatches))
   \<and> namedIndex chainedLanguages 2 ''NS'' ''One'' = Some 1
   \<and> MustGetPluralNamed chainedLanguages demoFormatting 2 ''NS'' ''One'' 5 [] = Some (Returns ''no rule'')"
proof -
  have g1: "Get demoStore demoFormatting 0 3 [] = Some (Returns ('''', Some (InvalidIndexLocation 3)))"
    by code_simp
  have g2: "GetNamed demoStore demoFormatting 0 ''NS'' ''Nope'' [] = Some (Returns ('''', Some InvalidTranslationID))"
    by code_simp
  have g3: "GetPlural chainedLanguages demoFormatting 2 1 5 []
        = Some (Returns (''no rule'', Some NoPluralRuleMatches))"
    by code_simp
  have g4: "GetPluralNamed demoStore demoFormatting 0 ''XX'' ''One'' 5 [] = Some (Returns ('''', Some InvalidNamespace))"
    by code_simp
  have g5: "GetPluralNamed chainedLanguages demoFormatting 2 ''NS'' ''One'' 5 []
        = Some (Returns (''no rule'', Some NoPluralRuleMatches))"
    by code_simp
  have e1: "searchedLanguage chainedLanguages 2 1 = Some 0"
    by code_simp
  have e2: "missingPluralRule (langs chainedLanguages 0) = ''no rule''"
    by code_simp
  have e3: "missingPluralRule (langs chainedLanguages 2) = ''pas de regle''"
    by code_simp
  have e4: "namedIndex chainedLanguages 2 ''NS'' ''One'' = Some 1"
    by code_simp
  note t = Must_blank_unless_no_plural_rule
  from g1 t [of demoStore demoFormatting 0 3 "[]" "''''" "InvalidIndexLocation 3"]
  have m1: "MustGet demoStore demoFormatting 0 3 [] = Some (Returns '''')" by blast
  from g2 t [of demoStore demoFormatting 0 _ "[]" "''''" "InvalidTranslationID" "''NS''" "''Nope''"]
  have m2: "MustGetNamed demoStore demoFormatting 0 ''NS'' ''Nope'' [] = Some (Returns '''')" by blast
  from g3 t [of chainedLanguages demoFormatting 2 1 "[]" "''no rule''" "NoPluralRuleMatches" _ _ 5]
  have m3: "MustGetPlural chainedLanguages demoFormatting 2 1 5 [] = Some (Returns ''no rule'')" by simp
  from g4 t [of demoStore demoFormatting 0 _ "[]" "''''" "InvalidNamespace" "''XX''" "''One''" 5]
  have m4: "MustGetPluralNamed demoStore demoFormatting 0 ''XX'' ''One'' 5 [] = Some (Returns '''')" by simp
  from g5 t [of chainedLanguages demoFormatting 2 _ "[]" "''no rule''" "NoPluralRuleMatches" "''NS''" "''One''" 5]
  have m5: "MustGetPluralNamed chainedLanguages demoFormatting 2 ''NS'' ''One'' 5 [] = Some (Returns ''no rule'')" by simp
  from g1 g2 g3 g4 g5 e1 e2 e3 e4 m1 m2 m3 m4 m5 show ?thesis by blast
qed

section \<open>Missing arguments\<close>







section \<open>SetFallback\<close>

text \<open>A nil argument is refused by a guard of its own, and nothing changes.\<close>

lemma SetFallback_nil:
  "SetFallback st l None
     = (st, Some (if fallback (langs st l) \<noteq> None then FallbackAlreadySet else FallbackIsNil))"
  by (simp add: SetFallback_def)

text \<open>
  For a language \<open>other\<close> (a non-nil pointer \<open>f\<close>), \<^verbatim>\<open>SetFallback\<close> returns an error
  exactly under the conditions of \<^const>\<open>fallbackRejected\<close>.
\<close>

lemma SetFallback_errors:
  "(snd (SetFallback st l (Some f)) \<noteq> None) = fallbackRejected st l f
   \<and> (if snd (SetFallback st l (Some f)) = None
       then fst (SetFallback st l (Some f))
              = st\<lparr>langs := (langs st)(l := (langs st l)\<lparr>fallback := Some f\<rparr>)\<rparr>
            \<and> fallback (langs (fst (SetFallback st l (Some f))) l) = Some f
       else fst (SetFallback st l (Some f)) = st)"
  by (auto simp: SetFallback_def fallbackRejected_def bytesEqual_def Let_def)

text \<open>
  C6 as stated fails: a nil argument is refused (``Fallback language cannot be nil'')
  although the fallback of the language is not set and nil is no language of which one
  of the other four conditions could hold.
\<close>

theorem SetFallback_nil_is_rejected:
  "snd (SetFallback twoLanguages 2 None) = Some FallbackIsNil
   \<and> \<not> claimedRejection twoLanguages 2 None
   \<and> fst (SetFallback twoLanguages 2 None) = twoLanguages"
proof -
  have "fallback (langs twoLanguages 2) = None"
    by code_simp
  then show ?thesis
    by (simp add: SetFallback_def claimedRejection_def)
qed

text \<open>
  C6 (as amended). \<^verbatim>\<open>SetFallback(other)\<close> returns an error exactly when \<open>other\<close> is nil or
  one of the five conditions holds. On an error the store, and so the fallback field,
  is unchanged; on success the only change is that the fallback of the language is
  \<open>other\<close>.
\<close>

theorem SetFallback_errors_or_nil:
  "(snd (SetFallback st l other) \<noteq> None) = (other = None \<or> claimedRejection st l other)
   \<and> (if snd (SetFallback st l other) = None
       then fst (SetFallback st l other)
              = st\<lparr>langs := (langs st)(l := (langs st l)\<lparr>fallback := other\<rparr>)\<rparr>
            \<and> fallback (langs (fst (SetFallback st l other)) l) = other
       else fst (SetFallback st l other) = st)"
proof (cases other)
  case None
  then show ?thesis by (simp add: SetFallback_def claimedRejection_def)
next
  case (Some f)
  then show ?thesis
    using SetFallback_errors [of st l f] by (simp add: claimedRejection_def)
qed

theorem SetFallback_errors_or_nil_witness:
  "\<not> claimedRejection twoLanguages 2 (Some 0)
   \<and> snd (SetFallback twoLanguages 2 (Some 0)) = None
   \<and> fallback (langs (fst (SetFallback twoLanguages 2 (Some 0))) 2) = Some 0
   \<and> claimedRejection twoLanguages 0 (Some 2)
   \<and> snd (SetFallback twoLanguages 0 (Some 2)) \<noteq> None
   \<and> fst (SetFallback twoLanguages 0 (Some 2)) = twoLanguages
   \<and> snd (SetFallback twoLanguages 2 None) \<noteq> None
   \<and> fst (SetFallback twoLanguages 2 None) = twoLanguages"
proof -
  have r1: "\<not> claimedRejection twoLanguages 2 (Some 0)"
    by code_simp
  have r2: "claimedRejection twoLanguages 0 (Some 2)"
    by code_simp
  from r1 SetFallback_errors_or_nil [of twoLanguages 2 "Some 0"]
  have a: "snd (SetFallback twoLanguages 2 (Some 0)) = None"
    by simp
  with SetFallback_errors_or_nil [of twoLanguages 2 "Some 0"]
  have b: "fallback (langs (fst (SetFallback twoLanguages 2 (Some 0))) 2) = Some 0"
    by simp
  from r2 SetFallback_errors_or_nil [of twoLanguages 0 "Some 2"]
  have c: "snd (SetFallback twoLanguages 0 (Some 2)) \<noteq> None"
    by simp
  with SetFallback_errors_or_nil [of twoLanguages 0 "Some 2"]
  have d: "fst (SetFallback twoLanguages 0 (Some 2)) = twoLanguages"
    by simp
  from SetFallback_errors_or_nil [of twoLanguages 2 None]
  have e: "snd (SetFallback twoLanguages 2 None) \<noteq> None"
    by simp
  with SetFallback_errors_or_nil [of twoLanguages 2 None]
  have f: "fst (SetFallback twoLanguages 2 None) = twoLanguages"
    by simp
  from r1 r2 a b c d e f show ?thesis by blast
qed

section \<open>The text compiler and empty keys\<close>

lemma storeIDs_empty_key:
  "getName val = [] \<Longrightarrow> storeIDs lib namespaceName (val # rest) s = Panics"
  by (simp add: Let_def)

lemma processProps_empty_key:
  "processProps lib isDefaultLanguage (('''', propVal) # rest) s = Panics"
  by simp

lemma NS_is_valid_name:
  "''NS'' \<noteq> ''Settings'' \<and> \<not> int (length ''NS'') > 255 \<and> matchNamespaceName ''NS'' \<and> \<not> isDigit (''NS'' ! 0)"
  by code_simp

text \<open>
  C9. The text compiler reads byte 0 of a translation-ID key and of a property key
  without having excluded the empty string. A document whose namespace \<open>NS\<close> starts
  with a translation whose key is empty makes \<^verbatim>\<open>languageDict.fromTextFile\<close> panic
  (whatever follows, and before any error about a name is reported); a property list
  with an empty key makes the property loop of \<^verbatim>\<open>addTranslationIDFromTextFile\<close> panic, and it
  is the property list that the object \<open>{"": "Hello"}\<close> of a translation yields;
  \<^verbatim>\<open>createPluralRule\<close> indexes its argument in the same way.
\<close>

theorem empty_key_is_indexed:
  "storeIDs lib namespaceName (tpString '''' v # after) s = Panics
   \<and> dictFromTextFile sha1 lib
        (tpObject ''Settings'' settings # tpObject ''NS'' (tpString '''' v # after) # others) = Panics
   \<and> processProps lib isDefaultLanguage (('''', propVal) # furtherProps) p = Panics
   \<and> readProperties lib (('''', propVal) # furtherProps) vs = Panics
   \<and> propsOfItem (tpObject ''Hi'' [tpString '''' ''Hello'']) = Props [('''', ''Hello'')] []
   \<and> createPluralRule '''' = Inl IndexOutOfRange"
proof -
  have a: "storeIDs lib nm (tpString '''' v # after) t = Panics" for nm t
    by (simp add: storeIDs_empty_key)
  have b: "processProps lib d (('''', propVal) # furtherProps) q = Panics" for d q
    by (rule processProps_empty_key)
  have c: "dictFromTextFile sha1 lib
        (tpObject ''Settings'' settings # tpObject ''NS'' (tpString '''' v # after) # others) = Panics"
    using NS_is_valid_name
    by (simp add: dictFromTextFile_def Let_def a del: storeIDs.simps)
  have d: "readProperties lib (('''', propVal) # furtherProps) vs = Panics"
    by (simp add: readProperties_def Let_def b del: processProps.simps)
  have e: "propsOfItem (tpObject ''Hi'' [tpString '''' ''Hello'']) = Props [('''', ''Hello'')] []"
    by (simp add: propsOfItem_def)
  have f: "createPluralRule '''' = Inl IndexOutOfRange"
    by (simp add: createPluralRule_def)
  from a b c d e f show ?thesis by blast
qed

section \<open>Reading a compiled catalog\<close>

text \<open>
  What a successful read has consumed: \<^verbatim>\<open>readBytes\<close> returns the bytes it was asked for
  only when the stream holds them, and \<^verbatim>\<open>readDataToStruct\<close> returns only when the lengths
  it has accumulated end at the expected total.
\<close>

lemma readBytes_Some:
  assumes "readBytes rd n = (rd', Some b)"
  shows "rdPos rd' = rdPos rd + n" "rdPos rd' \<le> length (rdStream rd)" "rdStream rd' = rdStream rd"
    "length b = n" "b = take n (drop (rdPos rd) (rdStream rd))"
  using assms by (auto simp: readBytes_def Let_def split: if_splits)

lemma accumulate_length:
  "accumulate lens expected i accum = Inr (starts, final) \<Longrightarrow> length starts = length lens"
proof (induction lens arbitrary: i accum starts)
  case Nil
  then show ?case by simp
next
  case (Cons len rest)
  then show ?case
    by (auto simp: Let_def split: if_splits sum.splits)
qed

lemma readDataToStruct_Some:
  assumes "readDataToStruct k getLength n tempBuffLen expected extra rd = Returns (Inr (s, rd'))"
  shows "rdPos rd' = rdPos rd + (k * n + extra)" "rdPos rd' \<le> length (rdStream rd)"
    "rdStream rd' = rdStream rd" "scFinal s = expected" "length (scStarts s) = n"
    "length (scElements s) = n"
proof -
  from assms obtain buf where rb: "readBytes rd (k * n + extra) = (rd', Some buf)"
    by (auto simp: readDataToStruct_def Let_def
        split: if_splits prod.splits option.splits sum.splits)
  from assms rb obtain starts where
    acc: "accumulate (map getLength (map (element k buf) [0..<n])) expected 0 0 = Inr (starts, expected)"
    and s: "s = \<lparr>scElements = map (element k buf) [0..<n], scStarts = starts,
                 scFinal = expected, scBuffer = buf\<rparr>"
    by (auto simp: readDataToStruct_def Let_def split: if_splits sum.splits)
  show "rdPos rd' = rdPos rd + (k * n + extra)" "rdPos rd' \<le> length (rdStream rd)"
    "rdStream rd' = rdStream rd"
    using readBytes_Some [OF rb] by simp_all
  show "scFinal s = expected" using s by simp
  show "length (scStarts s) = n"
    using accumulate_length [OF acc] s by simp
  show "length (scElements s) = n" using s by simp
qed

lemma readCatalogBody_Some:
  assumes "readCatalogBody header dictAddr sv rd = Returns (Inr l)"
  shows "rdPos rd + unat (shTranslationStringByteLength header) * unat (shNumRules header)
           + unat (shNumTranslations header) + unat (shDataSize header) \<le> length (rdStream rd)"
    and "startPos (last (rules l)) = shDataSize header"
    and "length (stringsData l) = unat (shDataSize header)"
    and "startIndex (last (translationSlices l)) = shNumRules header"
    and "length (rules l) = unat (shNumRules header) + 1"
    and "length (translationSlices l) = unat (shNumTranslations header) + 1"
proof -
  let ?tsbl = "unat (shTranslationStringByteLength header)"
  let ?lenBytes = "if ?tsbl = size_storeTranslationRule16 then 2 else 4 :: nat"
  let ?nr = "unat (shNumRules header)"
  let ?nt = "unat (shNumTranslations header)"
  let ?tb = "max (?tsbl * ?nr) (size_storeTranslationRuleSlice * ?nt)"
  from assms obtain rs rd1 where
    r1: "readDataToStruct ?tsbl (\<lambda>e. of_nat (decLE (take ?lenBytes e))) ?nr ?tb (shDataSize header) 0 rd
          = Returns (Inr (rs, rd1))"
    by (auto simp: readCatalogBody_def Let_def split: outcome.splits sum.splits)
  from assms r1 obtain ts rd2 where
    r2: "readDataToStruct size_storeTranslationRuleSlice (\<lambda>e. of_nat (decLE e)) ?nt ?tb
           (shNumRules header) 0 rd1 = Returns (Inr (ts, rd2))"
    by (auto simp: readCatalogBody_def Let_def split: outcome.splits sum.splits)
  from assms r1 r2 obtain rd3 sb where
    r3: "readBytes rd2 (unat (shDataSize header)) = (rd3, Some sb)"
    by (auto simp: readCatalogBody_def Let_def split: outcome.splits sum.splits option.splits prod.splits)
  from assms r1 r2 r3 have l: "l =
      \<lparr>stringsData = sb,
       rules = map (\<lambda>(e, accum). \<lparr>startPos = accum, rule = ruleOfElement ?lenBytes e\<rparr>)
                   (zip (scElements rs) (scStarts rs))
               @ [\<lparr>startPos = scFinal rs, rule = \<lparr>op = cmpAll, i0 = 0\<rparr>\<rparr>],
       translationSlices = map (\<lambda>accum. \<lparr>startIndex = accum\<rparr>) (scStarts ts)
               @ [\<lparr>startIndex = scFinal ts\<rparr>],
       dict = dictAddr, fallback = None, name = sv ! 0, fallbackName = sv ! 2,
       missingPluralRule = sv ! 3, languageIdentifier = sv ! 1\<rparr>"
    by (auto simp: readCatalogBody_def Let_def split: if_splits)
  note a = readDataToStruct_Some [OF r1]
  note b = readDataToStruct_Some [OF r2]
  note c = readBytes_Some [OF r3]
  show "rdPos rd + ?tsbl * ?nr + ?nt + unat (shDataSize header) \<le> length (rdStream rd)"
    using a(1,3) b(1,3) c(1,2) by (simp add: size_storeTranslationRuleSlice_def)
  show "startPos (last (rules l)) = shDataSize header"
    using l a(4) by simp
  show "length (stringsData l) = unat (shDataSize header)"
    using l c(4) by simp
  show "startIndex (last (translationSlices l)) = shNumRules header"
    using l b(4) by simp
  show "length (rules l) = ?nr + 1"
    using l a(5,6) by simp
  show "length (translationSlices l) = ?nt + 1"
    using l b(5) by simp
qed

lemma fromCompiledFile_Some:
  assumes "fromCompiledFile languageParse dictAddr d bs = Returns (Inr l)"
  shows "getCompiledFileSize (decHeader (take 40 bs)) \<le> int (length bs)"
    and "unat (startPos (last (rules l))) = length (stringsData l)"
    and "unat (startIndex (last (translationSlices l))) = length (rules l) - 1"
proof -
  let ?rd0 = "\<lparr>rdStream = bs, rdPos = 0, rdNumBytesRead = 0\<rparr>"
  from assms obtain rd hb where r0: "readBytes ?rd0 size_storeHeader = (rd, Some hb)"
    by (auto simp: fromCompiledFile_def split: prod.splits option.splits)
  note a = readBytes_Some [OF r0]
  have hb: "hb = take 40 bs"
    using a(5) by (simp add: size_storeHeader_def)
  let ?h = "decHeader hb"
  from assms r0 obtain rd1 st where r1: "readBytes rd (unat (shSettingsSize ?h)) = (rd1, Some st)"
    by (auto simp: fromCompiledFile_def Let_def split: prod.splits option.splits if_splits)
  note b = readBytes_Some [OF r1]
  from assms r0 r1 obtain sv where body: "readCatalogBody ?h dictAddr sv rd1 = Returns (Inr l)"
    by (auto simp: fromCompiledFile_def Let_def split: sum.splits if_splits)
  note c = readCatalogBody_Some [OF body]
  have "40 + unat (shSettingsSize ?h)
          + unat (shTranslationStringByteLength ?h) * unat (shNumRules ?h)
          + unat (shNumTranslations ?h) + unat (shDataSize ?h) \<le> length bs"
    using a(1,3) b(1,3) c(1) by (simp add: size_storeHeader_def)
  then have "int (40 + unat (shSettingsSize ?h)
          + unat (shTranslationStringByteLength ?h) * unat (shNumRules ?h)
          + unat (shNumTranslations ?h) + unat (shDataSize ?h)) \<le> int (length bs)"
    by (simp only: of_nat_le_iff)
  then show "getCompiledFileSize (decHeader (take 40 bs)) \<le> int (length bs)"
    by (simp add: getCompiledFileSize_def size_storeHeader_def size_storeTranslationRuleSlice_def
        hb [symmetric] algebra_simps)
  show "unat (startPos (last (rules l))) = length (stringsData l)"
    using c(2,3) by simp
  show "unat (startIndex (last (translationSlices l))) = length (rules l) - 1"
    using c(4,5) by simp
qed


text \<open>
  C7 (the file must be exactly \<^verbatim>\<open>getCompiledFileSize(header)\<close> bytes long). A stream with
  missing bytes is rejected, for every stream (lemma \<open>fromCompiledFile_Some\<close>: a successful
  read had at least that many bytes). A stream with trailing bytes is accepted: the
  catalog file of 59 bytes, which its header calls for, followed by one more byte is read
  without an error, to the same language as the file itself; the file without its last
  byte is rejected. The check at the end of \<^verbatim>\<open>Language.fromCompiledFile\<close>, under the comment
  ``Make sure we are at the end of the file'', compares the number of bytes asked for with
  the size computed from the header, and nothing is read after them.
\<close>

theorem trailing_bytes_accepted:
  "length catalogFile = 59
   \<and> getCompiledFileSize (decHeader (take 40 (catalogFile @ [0x21]))) = 59
   \<and> length (catalogFile @ [0x21]) = 60
   \<and> fromCompiledFile acceptsEn 0 oneEntryDict (catalogFile @ [0x21]) =
       Returns (Inr \<lparr>stringsData = s2b ''Hi'',
          rules = [\<lparr>startPos = 0, rule = \<lparr>op = 0, i0 = 0\<rparr>\<rparr>,
                   \<lparr>startPos = 2, rule = \<lparr>op = 0, i0 = 0\<rparr>\<rparr>],
          translationSlices = [\<lparr>startIndex = 0\<rparr>, \<lparr>startIndex = 1\<rparr>],
          dict = 0, fallback = None, name = ''E'', fallbackName = [],
          missingPluralRule = ''-'', languageIdentifier = ''en''\<rparr>)
   \<and> fromCompiledFile acceptsEn 0 oneEntryDict (catalogFile @ [0x21])
       = fromCompiledFile acceptsEn 0 oneEntryDict catalogFile
   \<and> fromCompiledFile acceptsEn 0 oneEntryDict (butlast catalogFile) = Returns (Inl FileEndedEarly)"
  by code_simp

end
